theory Spec2Isabelle
  imports Main
begin

section \<open>The social-account models and the login session of allauth.socialaccount.models\<close>

text \<open>
  A shallow embedding of \<^verbatim>\<open>src/allauth/socialaccount/models.py\<close>: the model
  classes \<^verbatim>\<open>SocialAccount\<close> and \<^verbatim>\<open>SocialToken\<close> and the class
  \<^verbatim>\<open>SocialLogin\<close> with its methods.

  Conventions of the embedding:
  \<^item> a Python object is a record value; a method that mutates \<^verbatim>\<open>self\<close> or the
    database takes both and returns both;
  \<^item> a method that can raise returns \<open>(error + 'a)\<close> next to the state reached when
    the exception left the method, since the writes made before a \<^verbatim>\<open>raise\<close>
    stay made;
  \<^item> \<^verbatim>\<open>assert\<close> statements are executed (the interpreter runs without
    \<^verbatim>\<open>-O\<close>);
  \<^item> the database is an explicit value: one list of rows per table;
  \<^item> what the module imports from outside this file (the settings constant
    \<^verbatim>\<open>STORE_TOKENS\<close>, \<^verbatim>\<open>setup_user_email\<close>,
    \<^verbatim>\<open>get_next_redirect_url\<close>, \<^verbatim>\<open>get_request_param\<close>,
    \<^verbatim>\<open>get_random_string\<close> and the adapter's instance serializer) is a
    parameter of the function that uses it.
\<close>

subsection \<open>Exceptions\<close>

datatype model = UserModel | SocialAccountModel | SocialTokenModel

datatype error =
    AssertionError
  | AttributeError
  | KeyError string
  | TypeError
  | PermissionDenied
  | DoesNotExist model
  | MultipleObjectsReturned model
  | RelatedObjectDoesNotExist
  | IntegrityError

subsection \<open>Model instances\<close>

text \<open>
  A primary key is \<^verbatim>\<open>None\<close> on an instance that was never saved. Python
  reads a key as a truth value in \<^verbatim>\<open>assert not self.is_existing\<close> and
  \<^verbatim>\<open>assert not self.token.pk\<close>: \<^verbatim>\<open>None\<close> and \<open>0\<close> are false.
\<close>

definition truthy_pk :: "nat option \<Rightarrow> bool" where
  "truthy_pk p = (case p of None \<Rightarrow> False | Some n \<Rightarrow> n \<noteq> 0)"

text \<open>The opaque JSON payload of \<^verbatim>\<open>SocialAccount.extra_data\<close>.\<close>

type_synonym json = "(string \<times> string) list"

text \<open>
  The user model is whatever \<^verbatim>\<open>get_user_model()\<close> names; the embedding keeps
  its primary key and one data field.
\<close>

record User =
  user_pk :: "nat option"
  username :: string

text \<open>
  \<^verbatim>\<open>SocialAccount\<close>. \<open>acc_addr\<close> is the identity of the Python object (what
  \<^verbatim>\<open>is\<close> compares); \<open>acc_user_id\<close> and \<open>acc_user\<close> are the two halves of
  the foreign key \<^verbatim>\<open>user\<close>: the stored key and the related object once it has
  been assigned or read. The time stamps \<^verbatim>\<open>last_login\<close> and
  \<^verbatim>\<open>date_joined\<close> are left out.
\<close>

record SocialAccount =
  acc_addr :: nat
  acc_pk :: "nat option"
  acc_user_id :: "nat option"
  acc_user :: "User option"
  provider :: string
  uid :: string
  extra_data :: json

text \<open>
  \<^verbatim>\<open>SocialToken\<close>. \<open>app\<close> is the primary key of the \<^verbatim>\<open>SocialApp\<close>
  the token belongs to; \<open>tok_account\<close> is the account bound to the attribute
  \<^verbatim>\<open>account\<close>, \<^verbatim>\<open>None\<close> while none has been bound (the foreign key is
  not nullable, so reading the attribute then raises
  \<^verbatim>\<open>RelatedObjectDoesNotExist\<close>); \<open>tok_token\<close> is the field
  \<^verbatim>\<open>token\<close>.
\<close>

record SocialToken =
  tok_pk :: "nat option"
  app :: nat
  tok_account :: "SocialAccount option"
  active :: bool
  tok_token :: string
  token_secret :: string
  expires_at :: "nat option"

text \<open>
  \<^verbatim>\<open>Model.__eq__\<close> of Django, as \<^verbatim>\<open>token.account == account\<close> runs it
  with a \<^verbatim>\<open>SocialAccount\<close> on the left: an instance without a primary key is
  equal to itself only, an instance with one is equal to every instance of the same
  key; \<^verbatim>\<open>None\<close> on the right is never equal.
\<close>

definition Model_eq :: "SocialAccount \<Rightarrow> SocialAccount option \<Rightarrow> bool" where
  "Model_eq a other =
     (case other of
        None \<Rightarrow> False
      | Some b \<Rightarrow>
          (case acc_pk a of
             None \<Rightarrow> acc_addr a = acc_addr b
           | Some p \<Rightarrow> acc_pk b = Some p))"

text \<open>
  Modelled from the spec: the model \<^verbatim>\<open>EmailAddress\<close> of
  \<^verbatim>\<open>allauth.account.models\<close>, whose source is not part of these files. A
  candidate email address is an address that the provider reports as verified or not.
\<close>

record EmailAddress =
  email :: string
  verified :: bool

subsection \<open>The database\<close>

record user_row =
  urow_pk :: nat
  urow_username :: string

record account_row =
  row_pk :: nat
  row_user_id :: nat
  row_provider :: string
  row_uid :: string
  row_extra_data :: json

record token_row =
  trow_pk :: nat
  trow_app :: nat
  trow_account_id :: nat
  trow_active :: bool
  trow_token :: string
  trow_token_secret :: string
  trow_expires_at :: "nat option"

text \<open>
  The tables, and \<open>next_addr\<close>: the identity the next instance built by a query gets.
  \<open>emails\<close> holds the email records, each with the key of its user.
\<close>

record db =
  users :: "user_row list"
  accounts :: "account_row list"
  tokens :: "token_row list"
  emails :: "(nat \<times> EmailAddress) list"
  next_addr :: nat

text \<open>A new row gets a key above every key of its table, so never \<open>0\<close>.\<close>

definition fresh_pk :: "nat list \<Rightarrow> nat" where
  "fresh_pk ps = Suc (fold max ps 0)"

text \<open>
  \<^verbatim>\<open>Model.save()\<close> on an instance that has a key: the row of that key is
  rewritten, or inserted when the table has none.
\<close>

definition upsert :: "('r \<Rightarrow> nat) \<Rightarrow> 'r \<Rightarrow> 'r list \<Rightarrow> 'r list" where
  "upsert key r rows =
     (if list_ex (\<lambda>x. key x = key r) rows
      then map (\<lambda>x. if key x = key r then r else x) rows
      else rows @ [r])"

definition User_save :: "db \<Rightarrow> User \<Rightarrow> User \<times> db" where
  "User_save d u =
     (case user_pk u of
        None \<Rightarrow>
          (let p = fresh_pk (map urow_pk (users d)) in
             (u\<lparr>user_pk := Some p\<rparr>,
              d\<lparr>users := users d @ [\<lparr>urow_pk = p, urow_username = username u\<rparr>]\<rparr>))
      | Some p \<Rightarrow>
          (u, d\<lparr>users := upsert urow_pk \<lparr>urow_pk = p, urow_username = username u\<rparr> (users d)\<rparr>))"

text \<open>
  Saving an account writes \<open>acc_user_id\<close> into the row; the column is not nullable.
  \<^verbatim>\<open>unique_together = ('provider', 'uid')\<close> (line 120): the database refuses the
  write when a row of another key has the pair already.
\<close>

definition account_conflict :: "db \<Rightarrow> SocialAccount \<Rightarrow> bool" where
  "account_conflict d a =
     list_ex (\<lambda>r. row_provider r = provider a \<and> row_uid r = uid a \<and> Some (row_pk r) \<noteq> acc_pk a)
       (accounts d)"

definition account_row_of :: "nat \<Rightarrow> nat \<Rightarrow> SocialAccount \<Rightarrow> account_row" where
  "account_row_of p ui a =
     \<lparr>row_pk = p, row_user_id = ui, row_provider = provider a, row_uid = uid a,
      row_extra_data = extra_data a\<rparr>"

definition SocialAccount_save :: "db \<Rightarrow> SocialAccount \<Rightarrow> error + (SocialAccount \<times> db)" where
  "SocialAccount_save d a =
     (case acc_user_id a of
        None \<Rightarrow> Inl IntegrityError
      | Some ui \<Rightarrow>
          if account_conflict d a then Inl IntegrityError
          else
            (case acc_pk a of
               None \<Rightarrow>
                 (let p = fresh_pk (map row_pk (accounts d)) in
                    Inr (a\<lparr>acc_pk := Some p\<rparr>,
                         d\<lparr>accounts := accounts d @ [account_row_of p ui a]\<rparr>))
             | Some p \<Rightarrow>
                 Inr (a, d\<lparr>accounts := upsert row_pk (account_row_of p ui a) (accounts d)\<rparr>)))"

text \<open>
  Saving a token writes the key of its account into the row; a token without an
  account, or with an unsaved one, cannot be stored.
  \<^verbatim>\<open>unique_together = ('app', 'account')\<close> (line 161): the database refuses the
  write when a row of another key has the pair already.
\<close>

definition token_conflict :: "db \<Rightarrow> nat \<Rightarrow> SocialToken \<Rightarrow> bool" where
  "token_conflict d ai t =
     list_ex (\<lambda>r. trow_app r = app t \<and> trow_account_id r = ai \<and> Some (trow_pk r) \<noteq> tok_pk t)
       (tokens d)"

definition token_row_of :: "nat \<Rightarrow> nat \<Rightarrow> SocialToken \<Rightarrow> token_row" where
  "token_row_of p ai t =
     \<lparr>trow_pk = p, trow_app = app t, trow_account_id = ai, trow_active = active t,
      trow_token = tok_token t, trow_token_secret = token_secret t,
      trow_expires_at = expires_at t\<rparr>"

definition SocialToken_save :: "db \<Rightarrow> SocialToken \<Rightarrow> error + (SocialToken \<times> db)" where
  "SocialToken_save d t =
     (case tok_account t of
        None \<Rightarrow> Inl IntegrityError
      | Some a \<Rightarrow>
          (case acc_pk a of
             None \<Rightarrow> Inl IntegrityError
           | Some ai \<Rightarrow>
               if token_conflict d ai t then Inl IntegrityError
               else
                 (case tok_pk t of
                    None \<Rightarrow>
                      (let p = fresh_pk (map trow_pk (tokens d)) in
                         Inr (t\<lparr>tok_pk := Some p\<rparr>,
                              d\<lparr>tokens := tokens d @ [token_row_of p ai t]\<rparr>))
                  | Some p \<Rightarrow>
                      Inr (t, d\<lparr>tokens := upsert trow_pk (token_row_of p ai t) (tokens d)\<rparr>))))"

text \<open>
  \<^verbatim>\<open>SocialAccount.objects.get(provider=..., uid=...)\<close>: the rows that match; none
  raises \<^verbatim>\<open>DoesNotExist\<close>, more than one
  \<^verbatim>\<open>MultipleObjectsReturned\<close>, one is returned as a new instance whose user has
  not been read yet.
\<close>

definition SocialAccount_objects_filter :: "db \<Rightarrow> string \<Rightarrow> string \<Rightarrow> account_row list" where
  "SocialAccount_objects_filter d p u =
     filter (\<lambda>r. row_provider r = p \<and> row_uid r = u) (accounts d)"

definition account_of_row :: "nat \<Rightarrow> account_row \<Rightarrow> SocialAccount" where
  "account_of_row addr r =
     \<lparr>acc_addr = addr, acc_pk = Some (row_pk r), acc_user_id = Some (row_user_id r),
      acc_user = None, provider = row_provider r, uid = row_uid r,
      extra_data = row_extra_data r\<rparr>"

definition SocialAccount_objects_get ::
  "db \<Rightarrow> string \<Rightarrow> string \<Rightarrow> error + (SocialAccount \<times> db)" where
  "SocialAccount_objects_get d p u =
     (case SocialAccount_objects_filter d p u of
        [] \<Rightarrow> Inl (DoesNotExist SocialAccountModel)
      | [r] \<Rightarrow> Inr (account_of_row (next_addr d) r, d\<lparr>next_addr := Suc (next_addr d)\<rparr>)
      | _ \<Rightarrow> Inl (MultipleObjectsReturned SocialAccountModel))"

text \<open>
  Reading \<^verbatim>\<open>account.user\<close>: the related object when the instance holds one,
  else the user row of the stored key.
\<close>

definition user_of_row :: "user_row \<Rightarrow> User" where
  "user_of_row r = \<lparr>user_pk = Some (urow_pk r), username = urow_username r\<rparr>"

definition SocialAccount_user :: "db \<Rightarrow> SocialAccount \<Rightarrow> error + User" where
  "SocialAccount_user d a =
     (case acc_user a of
        Some u \<Rightarrow> Inr u
      | None \<Rightarrow>
          (case acc_user_id a of
             None \<Rightarrow> Inl (DoesNotExist UserModel)
           | Some i \<Rightarrow>
               (case find (\<lambda>r. urow_pk r = i) (users d) of
                  None \<Rightarrow> Inl (DoesNotExist UserModel)
                | Some r \<Rightarrow> Inr (user_of_row r))))"

text \<open>Assigning \<^verbatim>\<open>account.user = user\<close> sets both halves of the foreign key.\<close>

definition set_account_user :: "SocialAccount \<Rightarrow> User \<Rightarrow> SocialAccount" where
  "set_account_user a u = a\<lparr>acc_user := Some u, acc_user_id := user_pk u\<rparr>"

text \<open>
  \<^verbatim>\<open>SocialToken.objects.get(account=a, app=...)\<close>. The rows are those of the key
  of \<open>a\<close>, so the \<^verbatim>\<open>account\<close> attribute of the instance returned denotes the
  account \<open>a\<close> itself.
\<close>

definition SocialToken_objects_filter :: "db \<Rightarrow> nat option \<Rightarrow> nat \<Rightarrow> token_row list" where
  "SocialToken_objects_filter d ai ap =
     filter (\<lambda>r. Some (trow_account_id r) = ai \<and> trow_app r = ap) (tokens d)"

definition token_of_row :: "SocialAccount \<Rightarrow> token_row \<Rightarrow> SocialToken" where
  "token_of_row a r =
     \<lparr>tok_pk = Some (trow_pk r), app = trow_app r, tok_account = Some a,
      active = trow_active r, tok_token = trow_token r,
      token_secret = trow_token_secret r, expires_at = trow_expires_at r\<rparr>"

definition SocialToken_objects_get :: "db \<Rightarrow> SocialAccount \<Rightarrow> nat \<Rightarrow> error + SocialToken" where
  "SocialToken_objects_get d a ap =
     (case SocialToken_objects_filter d (acc_pk a) ap of
        [] \<Rightarrow> Inl (DoesNotExist SocialTokenModel)
      | [r] \<Rightarrow> Inr (token_of_row a r)
      | _ \<Rightarrow> Inl (MultipleObjectsReturned SocialTokenModel))"

subsection \<open>The request and its session store\<close>

type_synonym state_dict = "string \<rightharpoonup> string"

text \<open>
  \<^verbatim>\<open>request.session\<close> is a dictionary; the only key this module uses holds a pair
  of a state and a verifier.
\<close>

record request =
  params :: "(string \<times> string) list"
  session :: "string \<rightharpoonup> (state_dict \<times> string)"

subsection \<open>SocialLogin\<close>

record SocialLogin =
  token :: "SocialToken option"
  user :: "User option"
  account :: "SocialAccount option"
  email_addresses :: "EmailAddress list"
  state :: state_dict

type_synonym outcome = "(error + unit) \<times> SocialLogin \<times> db"

text \<open>
  \<^verbatim>\<open>SocialLogin.__init__\<close> (lines 195 to 203). The assertion reads
  \<^verbatim>\<open>token.account\<close> first: on a token without an account that read raises
  \<^verbatim>\<open>RelatedObjectDoesNotExist\<close>, so the test \<^verbatim>\<open>is None\<close> never
  succeeds.
\<close>

definition init ::
  "User option \<Rightarrow> SocialAccount option \<Rightarrow> SocialToken option \<Rightarrow> EmailAddress list
     \<Rightarrow> error + SocialLogin" where
  "init u a t es =
     (case t of
        None \<Rightarrow>
          Inr \<lparr>token = t, user = u, account = a, email_addresses = es, state = Map.empty\<rparr>
      | Some tk \<Rightarrow>
          (case tok_account tk of
             None \<Rightarrow> Inl RelatedObjectDoesNotExist
           | Some ta \<Rightarrow>
               if Model_eq ta a
               then Inr \<lparr>token = t, user = u, account = a, email_addresses = es,
                         state = Map.empty\<rparr>
               else Inl AssertionError))"


text \<open>The property \<^verbatim>\<open>is_existing\<close> (lines 260 to 265): the key itself.\<close>

definition is_existing :: "SocialLogin \<Rightarrow> error + nat option" where
  "is_existing self =
     (case account self of
        None \<Rightarrow> Inl AttributeError
      | Some a \<Rightarrow> Inr (acc_pk a))"

text \<open>
  \<^verbatim>\<open>SocialLogin.save\<close> (lines 241 to 258). \<open>STORE_TOKENS\<close> is the settings
  constant and \<open>setup_user_email\<close> the function of
  \<^verbatim>\<open>allauth.account.utils\<close>.
\<close>

definition save ::
  "bool \<Rightarrow> (request \<Rightarrow> User \<Rightarrow> EmailAddress list \<Rightarrow> db \<Rightarrow> db) \<Rightarrow> db \<Rightarrow> SocialLogin
     \<Rightarrow> request \<Rightarrow> bool \<Rightarrow> outcome" where
  "save STORE_TOKENS setup_user_email d self req connect =
     (case is_existing self of
        Inl e \<Rightarrow> (Inl e, self, d)
      | Inr p \<Rightarrow>
          if truthy_pk p then (Inl AssertionError, self, d)
          else
            (case user self of
               None \<Rightarrow> (Inl AttributeError, self, d)
             | Some u0 \<Rightarrow>
                 (case User_save d u0 of
                    (u, d1) \<Rightarrow>
                      (case account self of
                         None \<Rightarrow> (Inl AttributeError, self\<lparr>user := Some u\<rparr>, d1)
                       | Some a0 \<Rightarrow>
                           (let a1 = set_account_user a0 u;
                                self1 = self\<lparr>user := Some u, account := Some a1\<rparr>
                            in case SocialAccount_save d1 a1 of
                                 Inl e \<Rightarrow> (Inl e, self1, d1)
                               | Inr (a2, d2) \<Rightarrow>
                                   (let self2 = self1\<lparr>account := Some a2\<rparr>;
                                        stored =
                                          (case token self2 of
                                             None \<Rightarrow> (Inr (), self2, d2)
                                           | Some tk \<Rightarrow>
                                               if STORE_TOKENS then
                                                 (let tk1 = tk\<lparr>tok_account := Some a2\<rparr>;
                                                      self3 = self2\<lparr>token := Some tk1\<rparr>
                                                  in case SocialToken_save d2 tk1 of
                                                       Inl e \<Rightarrow> (Inl e, self3, d2)
                                                     | Inr (tk2, d3) \<Rightarrow>
                                                         (Inr (), self3\<lparr>token := Some tk2\<rparr>, d3))
                                               else (Inr (), self2, d2))
                                    in case stored of
                                         (Inl e, self4, d4) \<Rightarrow> (Inl e, self4, d4)
                                       | (Inr _, self4, d4) \<Rightarrow>
                                           if connect then (Inr (), self4, d4)
                                           else (Inr (), self4,
                                                 setup_user_email req u (email_addresses self4) d4)))))))"

text \<open>\<^verbatim>\<open>SocialLogin.connect\<close> (lines 205 to 207).\<close>

definition connect ::
  "bool \<Rightarrow> (request \<Rightarrow> User \<Rightarrow> EmailAddress list \<Rightarrow> db \<Rightarrow> db) \<Rightarrow> db \<Rightarrow> SocialLogin
     \<Rightarrow> request \<Rightarrow> User \<Rightarrow> outcome" where
  "connect STORE_TOKENS setup_user_email d self req u =
     save STORE_TOKENS setup_user_email d (self\<lparr>user := Some u\<rparr>) req True"

text \<open>
  \<^verbatim>\<open>SocialLogin.lookup\<close> (lines 267 to 298), inside out: the body of the inner
  \<^verbatim>\<open>try\<close> (lines 284 to 293), the block under \<^verbatim>\<open># Update token\<close> with
  its handler (lines 281 to 296), the body of the outer \<^verbatim>\<open>try\<close> (lines 273 to
  296), and the method with the outer handler.
\<close>

definition lookup_token_try :: "db \<Rightarrow> SocialLogin \<Rightarrow> SocialAccount \<Rightarrow> SocialToken \<Rightarrow> outcome" where
  "lookup_token_try d self a tk =
     (case SocialToken_objects_get d a (app tk) of
        Inl e \<Rightarrow> (Inl e, self, d)
      | Inr t \<Rightarrow>
          (let t1 = t\<lparr>tok_token := tok_token tk\<rparr>;
               t2 = (if token_secret tk \<noteq> [] then t1\<lparr>token_secret := token_secret tk\<rparr> else t1);
               t3 = t2\<lparr>expires_at := expires_at tk\<rparr>
           in case SocialToken_save d t3 of
                Inl e \<Rightarrow> (Inl e, self, d)
              | Inr (t4, d1) \<Rightarrow> (Inr (), self\<lparr>token := Some t4\<rparr>, d1)))"

definition lookup_token :: "bool \<Rightarrow> db \<Rightarrow> SocialLogin \<Rightarrow> SocialAccount \<Rightarrow> outcome" where
  "lookup_token STORE_TOKENS d self a =
     (case token self of
        None \<Rightarrow> (Inr (), self, d)
      | Some tk \<Rightarrow>
          if \<not> STORE_TOKENS then (Inr (), self, d)
          else if truthy_pk (tok_pk tk) then (Inl AssertionError, self, d)
          else
            (case lookup_token_try d self a tk of
               (r, self1, d1) \<Rightarrow>
                 if r = Inl (DoesNotExist SocialTokenModel) then
                   (case token self1 of
                      None \<Rightarrow> (Inl AttributeError, self1, d1)
                    | Some tk1 \<Rightarrow>
                        (let tk2 = tk1\<lparr>tok_account := Some a\<rparr>;
                             self2 = self1\<lparr>token := Some tk2\<rparr>
                         in case SocialToken_save d1 tk2 of
                              Inl e \<Rightarrow> (Inl e, self2, d1)
                            | Inr (tk3, d2) \<Rightarrow> (Inr (), self2\<lparr>token := Some tk3\<rparr>, d2)))
                 else (r, self1, d1)))"

definition lookup_try :: "bool \<Rightarrow> db \<Rightarrow> SocialLogin \<Rightarrow> SocialAccount \<Rightarrow> outcome" where
  "lookup_try STORE_TOKENS d self c =
     (case SocialAccount_objects_get d (provider c) (uid c) of
        Inl e \<Rightarrow> (Inl e, self, d)
      | Inr (a, d1) \<Rightarrow>
          (let a1 = a\<lparr>extra_data := extra_data c\<rparr>;
               self1 = self\<lparr>account := Some a1\<rparr>
           in case SocialAccount_user d1 a1 of
                Inl e \<Rightarrow> (Inl e, self1, d1)
              | Inr u \<Rightarrow>
                  (let a2 = a1\<lparr>acc_user := Some u\<rparr>;
                       self2 = self1\<lparr>account := Some a2, user := Some u\<rparr>
                   in case SocialAccount_save d1 a2 of
                        Inl e \<Rightarrow> (Inl e, self2, d1)
                      | Inr (a3, d2) \<Rightarrow>
                          lookup_token STORE_TOKENS d2 (self2\<lparr>account := Some a3\<rparr>) a3)))"

definition lookup :: "bool \<Rightarrow> db \<Rightarrow> SocialLogin \<Rightarrow> outcome" where
  "lookup STORE_TOKENS d self =
     (case is_existing self of
        Inl e \<Rightarrow> (Inl e, self, d)
      | Inr p \<Rightarrow>
          if truthy_pk p then (Inl AssertionError, self, d)
          else
            (case account self of
               None \<Rightarrow> (Inl AttributeError, self, d)
             | Some c \<Rightarrow>
                 (case lookup_try STORE_TOKENS d self c of
                    (r, self1, d1) \<Rightarrow>
                      if r = Inl (DoesNotExist SocialAccountModel) then (Inr (), self1, d1)
                      else (r, self1, d1))))"

text \<open>
  \<^verbatim>\<open>SocialLogin.serialize\<close> and \<^verbatim>\<open>SocialLogin.deserialize\<close> (lines
  209 to 239). The serialized form is a dictionary from keys to values of three shapes:
  the blob of one instance, a list of blobs, and the state dictionary. The adapter's
  \<^verbatim>\<open>serialize_instance\<close> and \<^verbatim>\<open>deserialize_instance\<close> are given per
  model class; \<^verbatim>\<open>self.account\<close> and \<^verbatim>\<open>self.user\<close> are handed over as
  they are, \<^verbatim>\<open>None\<close> included. A value of another shape than the key's is
  reported as \<^verbatim>\<open>TypeError\<close>.
\<close>

datatype 'b entry = Instance 'b | Instances "'b list" | State state_dict

record 'b adapter =
  serialize_account :: "SocialAccount option \<Rightarrow> 'b"
  serialize_user :: "User option \<Rightarrow> 'b"
  serialize_token :: "SocialToken \<Rightarrow> 'b"
  serialize_email :: "EmailAddress \<Rightarrow> 'b"
  deserialize_account :: "'b \<Rightarrow> SocialAccount"
  deserialize_user :: "'b \<Rightarrow> User"
  deserialize_token :: "'b \<Rightarrow> SocialToken"
  deserialize_email :: "'b \<Rightarrow> EmailAddress"

definition serialize :: "'b adapter \<Rightarrow> SocialLogin \<Rightarrow> (string \<rightharpoonup> 'b entry)" where
  "serialize ad self =
     (let ret = [''account'' \<mapsto> Instance (serialize_account ad (account self)),
                 ''user'' \<mapsto> Instance (serialize_user ad (user self)),
                 ''state'' \<mapsto> State (state self),
                 ''email_addresses'' \<mapsto>
                    Instances (map (serialize_email ad) (email_addresses self))]
      in case token self of
           None \<Rightarrow> ret
         | Some t \<Rightarrow> ret(''token'' \<mapsto> Instance (serialize_token ad t)))"

definition get_instance :: "(string \<rightharpoonup> 'b entry) \<Rightarrow> string \<Rightarrow> error + 'b" where
  "get_instance data k =
     (case data k of
        None \<Rightarrow> Inl (KeyError k)
      | Some (Instance b) \<Rightarrow> Inr b
      | Some _ \<Rightarrow> Inl TypeError)"

definition get_instances :: "(string \<rightharpoonup> 'b entry) \<Rightarrow> string \<Rightarrow> error + 'b list" where
  "get_instances data k =
     (case data k of
        None \<Rightarrow> Inl (KeyError k)
      | Some (Instances bs) \<Rightarrow> Inr bs
      | Some _ \<Rightarrow> Inl TypeError)"

definition get_state :: "(string \<rightharpoonup> 'b entry) \<Rightarrow> string \<Rightarrow> error + state_dict" where
  "get_state data k =
     (case data k of
        None \<Rightarrow> Inl (KeyError k)
      | Some (State st) \<Rightarrow> Inr st
      | Some _ \<Rightarrow> Inl TypeError)"

definition deserialize :: "'b adapter \<Rightarrow> (string \<rightharpoonup> 'b entry) \<Rightarrow> error + SocialLogin" where
  "deserialize ad data =
     (case get_instance data ''account'' of
        Inl e \<Rightarrow> Inl e
      | Inr ba \<Rightarrow>
          (case get_instance data ''user'' of
             Inl e \<Rightarrow> Inl e
           | Inr bu \<Rightarrow>
               (case (if data ''token'' \<noteq> None
                      then map_sum id (\<lambda>bt. Some (deserialize_token ad bt))
                             (get_instance data ''token'')
                      else Inr None) of
                  Inl e \<Rightarrow> Inl e
                | Inr t \<Rightarrow>
                    (case get_instances data ''email_addresses'' of
                       Inl e \<Rightarrow> Inl e
                     | Inr bes \<Rightarrow>
                         (case init None None None [] of
                            Inl e \<Rightarrow> Inl e
                          | Inr ret \<Rightarrow>
                              (case get_state data ''state'' of
                                 Inl e \<Rightarrow> Inl e
                               | Inr st \<Rightarrow>
                                   Inr (ret\<lparr>token := t,
                                            account := Some (deserialize_account ad ba),
                                            user := Some (deserialize_user ad bu),
                                            email_addresses := map (deserialize_email ad) bes,
                                            state := st\<rparr>)))))))"

text \<open>
  \<^verbatim>\<open>SocialLogin.state_from_request\<close> (lines 304 to 313).
  \<open>get_next_redirect_url\<close> and \<open>get_request_param\<close> are the functions of
  \<^verbatim>\<open>allauth.account.utils\<close> and \<^verbatim>\<open>allauth.utils\<close>.
\<close>

definition state_from_request ::
  "(request \<Rightarrow> string option) \<Rightarrow> (request \<Rightarrow> string \<Rightarrow> string \<Rightarrow> string) \<Rightarrow> request
     \<Rightarrow> state_dict" where
  "state_from_request get_next_redirect_url get_request_param req =
     (let st0 = Map.empty;
          st1 = (case get_next_redirect_url req of
                   None \<Rightarrow> st0
                 | Some next_url \<Rightarrow> if next_url \<noteq> [] then st0(''next'' \<mapsto> next_url) else st0);
          st2 = st1(''process'' \<mapsto> get_request_param req ''process'' ''login'');
          st3 = st2(''scope'' \<mapsto> get_request_param req ''scope'' []);
          st4 = st3(''auth_params'' \<mapsto> get_request_param req ''auth_params'' [])
      in st4)"

text \<open>
  \<^verbatim>\<open>SocialLogin.stash_state\<close> (lines 315 to 320). \<open>random_string\<close> is what
  \<^verbatim>\<open>get_random_string()\<close> draws.
\<close>

definition stash_state ::
  "(request \<Rightarrow> string option) \<Rightarrow> (request \<Rightarrow> string \<Rightarrow> string \<Rightarrow> string) \<Rightarrow> string
     \<Rightarrow> request \<Rightarrow> string \<times> request" where
  "stash_state get_next_redirect_url get_request_param random_string req =
     (let st = state_from_request get_next_redirect_url get_request_param req;
          verifier = random_string
      in (verifier,
          req\<lparr>session := (session req)(''socialaccount_state'' \<mapsto> (st, verifier))\<rparr>))"

text \<open>\<^verbatim>\<open>SocialLogin.unstash_state\<close> (lines 322 to 327).\<close>

definition unstash_state :: "request \<Rightarrow> (error + state_dict) \<times> request" where
  "unstash_state req =
     (case session req ''socialaccount_state'' of
        None \<Rightarrow> (Inl PermissionDenied, req)
      | Some (st, verifier) \<Rightarrow>
          (Inr st, req\<lparr>session := (session req)(''socialaccount_state'' := None)\<rparr>))"

text \<open>\<^verbatim>\<open>SocialLogin.verify_and_unstash_state\<close> (lines 329 to 336).\<close>

definition verify_and_unstash_state :: "request \<Rightarrow> string \<Rightarrow> (error + state_dict) \<times> request" where
  "verify_and_unstash_state req verifier =
     (case session req ''socialaccount_state'' of
        None \<Rightarrow> (Inl PermissionDenied, req)
      | Some (st, verifier2) \<Rightarrow>
          (let req1 = req\<lparr>session := (session req)(''socialaccount_state'' := None)\<rparr>
           in if verifier \<noteq> verifier2 then (Inl PermissionDenied, req1)
              else (Inr st, req1)))"

subsection \<open>Example values\<close>

text \<open>A request whose session holds a stashed handshake, and one whose session is empty.\<close>

definition example_request :: request where
  "example_request =
     \<lparr>params = [(''next'', ''/home'')],
      session = [''socialaccount_state'' \<mapsto> ([''process'' \<mapsto> ''login''], ''v1'')]\<rparr>"

definition fresh_request :: request where
  "fresh_request = \<lparr>params = [(''next'', ''/home'')], session = Map.empty\<rparr>"

text \<open>
  A database with one user, one account of that user under \<open>(github, 42)\<close> and one
  token of that account; and a login as a provider callback builds it: an unsaved
  account under the same pair with a newer payload, an unsaved user and an unsaved
  token without a secret.
\<close>

definition alice_row :: user_row where
  "alice_row = \<lparr>urow_pk = 1, urow_username = ''alice''\<rparr>"

definition github_row :: account_row where
  "github_row =
     \<lparr>row_pk = 1, row_user_id = 1, row_provider = ''github'', row_uid = ''42'',
      row_extra_data = [(''name'', ''old'')]\<rparr>"

definition stored_token_row :: token_row where
  "stored_token_row =
     \<lparr>trow_pk = 1, trow_app = 1, trow_account_id = 1, trow_active = True,
      trow_token = ''a1'', trow_token_secret = ''r1'', trow_expires_at = None\<rparr>"

definition example_db :: db where
  "example_db =
     \<lparr>users = [alice_row], accounts = [github_row], tokens = [stored_token_row],
      emails = [], next_addr = 1\<rparr>"

definition bob :: User where
  "bob = \<lparr>user_pk = None, username = ''bob''\<rparr>"

definition candidate_account :: SocialAccount where
  "candidate_account =
     \<lparr>acc_addr = 0, acc_pk = None, acc_user_id = None, acc_user = Some bob,
      provider = ''github'', uid = ''42'', extra_data = [(''name'', ''new'')]\<rparr>"

definition candidate_token :: SocialToken where
  "candidate_token =
     \<lparr>tok_pk = None, app = 1, tok_account = None, active = True, tok_token = ''a2'',
      token_secret = [], expires_at = Some 3600\<rparr>"

definition returning_login :: SocialLogin where
  "returning_login =
     \<lparr>token = Some candidate_token, user = Some bob, account = Some candidate_account,
      email_addresses = [\<lparr>email = ''bob@example.org'', verified = True\<rparr>],
      state = Map.empty\<rparr>"

definition first_login :: SocialLogin where
  "first_login = returning_login\<lparr>account := Some (candidate_account\<lparr>uid := ''43''\<rparr>)\<rparr>"

definition stored_account :: SocialAccount where
  "stored_account =
     \<lparr>acc_addr = 1, acc_pk = Some 1, acc_user_id = Some 1,
      acc_user = Some \<lparr>user_pk = Some 1, username = ''alice''\<rparr>,
      provider = ''github'', uid = ''42'', extra_data = [(''name'', ''new'')]\<rparr>"

text \<open>
  Modelled from the spec: \<^verbatim>\<open>setup_user_email\<close> of
  \<^verbatim>\<open>allauth.account.utils\<close>, whose source is not part of these files, as the
  examples use it: it adds the verified addresses that are not on file yet, under the key
  of the user. The theorems take the function as a parameter and assume nothing of it.
\<close>

definition record_verified_emails :: "request \<Rightarrow> User \<Rightarrow> EmailAddress list \<Rightarrow> db \<Rightarrow> db" where
  "record_verified_emails req u es d =
     (case user_pk u of
        None \<Rightarrow> d
      | Some p \<Rightarrow>
          d\<lparr>emails :=
              emails d @ filter (\<lambda>r. r \<notin> set (emails d)) (map (Pair p) (filter verified es))\<rparr>)"

text \<open>A session whose account is already stored.\<close>

definition existing_login :: SocialLogin where
  "existing_login = returning_login\<lparr>account := Some stored_account\<rparr>"

text \<open>
  A first login whose account object carries the key \<open>0\<close>, which Python reads as
  false.
\<close>

definition zero_login :: SocialLogin where
  "zero_login =
     returning_login\<lparr>account := Some (candidate_account\<lparr>acc_pk := Some 0, uid := ''43''\<rparr>)\<rparr>"

text \<open>
  An instance serializer for the examples. Its blobs hold the instance; deserializing
  an account builds a new object (another identity) without the cached user.
  \<open>same_account\<close> compares the stored fields of two accounts.
\<close>

datatype blob =
    AccountBlob "SocialAccount option"
  | UserBlob "User option"
  | TokenBlob SocialToken
  | EmailBlob EmailAddress

definition blank_account :: SocialAccount where
  "blank_account =
     \<lparr>acc_addr = 0, acc_pk = None, acc_user_id = None, acc_user = None, provider = [],
      uid = [], extra_data = []\<rparr>"

definition example_adapter :: "blob adapter" where
  "example_adapter =
     \<lparr>serialize_account = AccountBlob,
      serialize_user = UserBlob,
      serialize_token = TokenBlob,
      serialize_email = EmailBlob,
      deserialize_account =
        (\<lambda>b. case b of
               AccountBlob (Some a) \<Rightarrow> a\<lparr>acc_addr := Suc (acc_addr a), acc_user := None\<rparr>
             | _ \<Rightarrow> blank_account),
      deserialize_user =
        (\<lambda>b. case b of UserBlob (Some u) \<Rightarrow> u | _ \<Rightarrow> \<lparr>user_pk = None, username = []\<rparr>),
      deserialize_token =
        (\<lambda>b. case b of
               TokenBlob t \<Rightarrow> t
             | _ \<Rightarrow> \<lparr>tok_pk = None, app = 0, tok_account = None, active = True, tok_token = [],
                      token_secret = [], expires_at = None\<rparr>),
      deserialize_email =
        (\<lambda>b. case b of
               EmailBlob e \<Rightarrow> e
             | _ \<Rightarrow> \<lparr>email = [], verified = False\<rparr>)\<rparr>"

definition same_account :: "SocialAccount \<Rightarrow> SocialAccount \<Rightarrow> bool" where
  "same_account a b =
     (acc_pk a = acc_pk b \<and> acc_user_id a = acc_user_id b \<and> provider a = provider b
      \<and> uid a = uid b \<and> extra_data a = extra_data b)"


lemmas example_defs = alice_row_def github_row_def stored_token_row_def example_db_def bob_def
  candidate_account_def candidate_token_def returning_login_def first_login_def
  stored_account_def

section \<open>The verifier stash\<close>

text \<open>
  C4: \<^verbatim>\<open>verify_and_unstash_state\<close> raises \<^verbatim>\<open>PermissionDenied\<close> when nothing
  is stashed, without looking at the verifier; when a pair is stashed it removes it,
  and raises \<^verbatim>\<open>PermissionDenied\<close> unless the verifier given is the stored one, in
  which case it returns the stored state. After any call nothing is stashed, so every
  later call raises \<^verbatim>\<open>PermissionDenied\<close>, whatever verifier it is given.
\<close>

theorem verify_and_unstash_state_consumes:
  "(session req ''socialaccount_state'' = None \<longrightarrow>
      verify_and_unstash_state req v = (Inl PermissionDenied, req))
   \<and> (\<forall>st v2. session req ''socialaccount_state'' = Some (st, v2) \<longrightarrow>
        verify_and_unstash_state req v =
          (if v = v2 then Inr st else Inl PermissionDenied,
           req\<lparr>session := (session req)(''socialaccount_state'' := None)\<rparr>))
   \<and> session (snd (verify_and_unstash_state req v)) ''socialaccount_state'' = None
   \<and> (\<forall>v'. verify_and_unstash_state (snd (verify_and_unstash_state req v)) v' =
          (Inl PermissionDenied, snd (verify_and_unstash_state req v)))"
  by (cases "session req ''socialaccount_state''")
     (auto simp: verify_and_unstash_state_def Let_def)

theorem verify_and_unstash_state_consumes_witness:
  "session example_request ''socialaccount_state'' = Some ([''process'' \<mapsto> ''login''], ''v1'')
   \<and> verify_and_unstash_state example_request ''wrong'' =
        (Inl PermissionDenied,
         example_request\<lparr>session := (session example_request)(''socialaccount_state'' := None)\<rparr>)
   \<and> fst (verify_and_unstash_state (snd (verify_and_unstash_state example_request ''wrong'')) ''v1'')
        = Inl PermissionDenied"
  using verify_and_unstash_state_consumes [of example_request "''wrong''"]
  by (simp add: example_request_def verify_and_unstash_state_def)

text \<open>
  C7: \<^verbatim>\<open>stash_state\<close> followed by \<^verbatim>\<open>unstash_state\<close> returns the state that
  \<^verbatim>\<open>state_from_request\<close> derived from the request when it was stashed, and leaves
  the session without the stashed entry; \<^verbatim>\<open>unstash_state\<close> raises
  \<^verbatim>\<open>PermissionDenied\<close> when nothing is stashed, so a second call always does.
\<close>

theorem stash_then_unstash:
  "unstash_state (snd (stash_state g p rnd req)) =
     (Inr (state_from_request g p req),
      req\<lparr>session := (session req)(''socialaccount_state'' := None)\<rparr>)
   \<and> fst (stash_state g p rnd req) = rnd
   \<and> session (snd (stash_state g p rnd req)) ''socialaccount_state'' =
        Some (state_from_request g p req, rnd)
   \<and> (session req ''socialaccount_state'' = None \<longrightarrow>
        unstash_state req = (Inl PermissionDenied, req))
   \<and> unstash_state (snd (unstash_state req)) = (Inl PermissionDenied, snd (unstash_state req))"
  by (cases "session req ''socialaccount_state''")
     (auto simp: unstash_state_def stash_state_def Let_def)

theorem stash_then_unstash_witness:
  "unstash_state
     (snd (stash_state (\<lambda>r. map_of (params r) ''next'') (\<lambda>r k dflt. dflt) ''v1'' fresh_request)) =
     (Inr [''next'' \<mapsto> ''/home'', ''process'' \<mapsto> ''login'', ''scope'' \<mapsto> [],
           ''auth_params'' \<mapsto> []],
      fresh_request)
   \<and> session fresh_request ''socialaccount_state'' = None
   \<and> unstash_state fresh_request = (Inl PermissionDenied, fresh_request)"
  using stash_then_unstash
    [of "\<lambda>r. map_of (params r) ''next''" "\<lambda>r k dflt. dflt" "''v1''" fresh_request]
  by (simp add: fresh_request_def state_from_request_def)

section \<open>Facts about the database\<close>

lemma fold_max_ge: "(m::nat) \<le> fold max ps m \<and> (\<forall>x \<in> set ps. x \<le> fold max ps m)"
proof (induction ps arbitrary: m)
  case Nil
  then show ?case by simp
next
  case (Cons p ps)
  have "max p m \<le> fold max ps (max p m)" and "\<forall>x \<in> set ps. x \<le> fold max ps (max p m)"
    using Cons.IH [of "max p m"] by simp_all
  moreover have "m \<le> max p m" and "p \<le> max p m" by simp_all
  ultimately show ?case by (auto intro: order_trans)
qed

lemma fresh_pk_above: "x \<in> set ps \<Longrightarrow> x < fresh_pk ps"
  using fold_max_ge [of 0 ps] by (auto simp: fresh_pk_def less_Suc_eq_le)

lemma fresh_pk_nonzero: "fresh_pk ps \<noteq> 0"
  by (simp add: fresh_pk_def)

lemma find_upsert: "find (\<lambda>x. key x = key r) (upsert key r rows) = Some r"
proof (cases "list_ex (\<lambda>x. key x = key r) rows")
  case True
  then have "find (\<lambda>x. key x = key r) (map (\<lambda>x. if key x = key r then r else x) rows) = Some r"
    by (induction rows) auto
  with True show ?thesis by (simp add: upsert_def)
next
  case False
  then have "find (\<lambda>x. key x = key r) (rows @ [r]) = Some r"
    by (induction rows) auto
  with False show ?thesis by (simp add: upsert_def)
qed

lemma find_append_fresh:
  assumes "key r = fresh_pk (map key rows)"
  shows "find (\<lambda>x. key x = key r) (rows @ [r]) = Some r"
proof -
  have "\<forall>x \<in> set rows. key x \<noteq> key r"
    using fresh_pk_above [of _ "map key rows"] assms by fastforce
  then show ?thesis by (induction rows) auto
qed

lemma User_save_result:
  assumes "User_save d u = (u', d')"
  shows "\<exists>p. u' = u\<lparr>user_pk := Some p\<rparr>
           \<and> (user_pk u = None \<longrightarrow> p \<noteq> 0) \<and> (\<forall>q. user_pk u = Some q \<longrightarrow> p = q)
           \<and> find (\<lambda>x. urow_pk x = p) (users d') = Some \<lparr>urow_pk = p, urow_username = username u\<rparr>
           \<and> accounts d' = accounts d \<and> tokens d' = tokens d \<and> emails d' = emails d
           \<and> next_addr d' = next_addr d"
proof (cases "user_pk u")
  case None
  let ?p = "fresh_pk (map urow_pk (users d))"
  let ?r = "\<lparr>urow_pk = ?p, urow_username = username u\<rparr>"
  have "find (\<lambda>x. urow_pk x = urow_pk ?r) (users d @ [?r]) = Some ?r"
    by (rule find_append_fresh) simp
  with None assms show ?thesis
    by (intro exI [of _ "?p"]) (auto simp: User_save_def Let_def fresh_pk_nonzero)
next
  case (Some q)
  let ?r = "\<lparr>urow_pk = q, urow_username = username u\<rparr>"
  have "find (\<lambda>x. urow_pk x = urow_pk ?r) (upsert urow_pk ?r (users d)) = Some ?r"
    by (rule find_upsert)
  with Some assms show ?thesis
    by (intro exI [of _ q]) (auto simp: User_save_def)
qed

lemma SocialAccount_save_result:
  assumes "acc_user_id a = Some ui" and "\<not> account_conflict d a"
  shows "\<exists>p d'. SocialAccount_save d a = Inr (a\<lparr>acc_pk := Some p\<rparr>, d')
           \<and> (acc_pk a = None \<longrightarrow> p = fresh_pk (map row_pk (accounts d)))
           \<and> (acc_pk a = None \<longrightarrow> p \<noteq> 0) \<and> (\<forall>q. acc_pk a = Some q \<longrightarrow> p = q)
           \<and> find (\<lambda>x. row_pk x = p) (accounts d') = Some (account_row_of p ui a)
           \<and> users d' = users d \<and> tokens d' = tokens d \<and> emails d' = emails d
           \<and> next_addr d' = next_addr d"
proof (cases "acc_pk a")
  case None
  let ?p = "fresh_pk (map row_pk (accounts d))"
  let ?r = "account_row_of ?p ui a"
  have "find (\<lambda>x. row_pk x = row_pk ?r) (accounts d @ [?r]) = Some ?r"
    by (rule find_append_fresh) (simp add: account_row_of_def)
  with None assms show ?thesis
    by (intro exI [of _ "?p"] exI [of _ "d\<lparr>accounts := accounts d @ [?r]\<rparr>"])
       (simp add: SocialAccount_save_def Let_def fresh_pk_nonzero account_row_of_def)
next
  case (Some q)
  let ?r = "account_row_of q ui a"
  have "find (\<lambda>x. row_pk x = row_pk ?r) (upsert row_pk ?r (accounts d)) = Some ?r"
    by (rule find_upsert)
  moreover have "a\<lparr>acc_pk := Some q\<rparr> = a" using Some by simp
  ultimately show ?thesis using Some assms
    by (intro exI [of _ q] exI [of _ "d\<lparr>accounts := upsert row_pk ?r (accounts d)\<rparr>"])
       (simp add: SocialAccount_save_def account_row_of_def)
qed

lemma SocialToken_save_result:
  assumes "tok_account t = Some a" and "acc_pk a = Some ai" and "\<not> token_conflict d ai t"
  shows "\<exists>p d'. SocialToken_save d t = Inr (t\<lparr>tok_pk := Some p\<rparr>, d')
           \<and> (tok_pk t = None \<longrightarrow> p \<noteq> 0) \<and> (\<forall>q. tok_pk t = Some q \<longrightarrow> p = q)
           \<and> find (\<lambda>x. trow_pk x = p) (tokens d') = Some (token_row_of p ai t)
           \<and> users d' = users d \<and> accounts d' = accounts d \<and> emails d' = emails d
           \<and> next_addr d' = next_addr d"
proof (cases "tok_pk t")
  case None
  let ?p = "fresh_pk (map trow_pk (tokens d))"
  let ?r = "token_row_of ?p ai t"
  have "find (\<lambda>x. trow_pk x = trow_pk ?r) (tokens d @ [?r]) = Some ?r"
    by (rule find_append_fresh) (simp add: token_row_of_def)
  with None assms show ?thesis
    by (intro exI [of _ "?p"] exI [of _ "d\<lparr>tokens := tokens d @ [?r]\<rparr>"])
       (simp add: SocialToken_save_def Let_def fresh_pk_nonzero token_row_of_def)
next
  case (Some q)
  let ?r = "token_row_of q ai t"
  have "find (\<lambda>x. trow_pk x = trow_pk ?r) (upsert trow_pk ?r (tokens d)) = Some ?r"
    by (rule find_upsert)
  moreover have "t\<lparr>tok_pk := Some q\<rparr> = t" using Some by simp
  ultimately show ?thesis using Some assms
    by (intro exI [of _ q] exI [of _ "d\<lparr>tokens := upsert trow_pk ?r (tokens d)\<rparr>"])
       (simp add: SocialToken_save_def token_row_of_def)
qed

lemma SocialAccount_save_conflict:
  "account_conflict d a \<Longrightarrow> SocialAccount_save d a = Inl IntegrityError"
  by (simp add: SocialAccount_save_def split: option.splits)

lemma SocialAccount_save_Inr:
  "SocialAccount_save d a = Inr r \<Longrightarrow> acc_user_id a \<noteq> None \<and> \<not> account_conflict d a"
  by (auto simp: SocialAccount_save_def split: option.splits if_splits)

lemma SocialAccount_save_errors: "SocialAccount_save d a = Inl e \<Longrightarrow> e = IntegrityError"
  by (auto simp: SocialAccount_save_def Let_def split: option.splits if_splits)

lemma SocialAccount_save_frame:
  "SocialAccount_save d a = Inr (a', d') \<Longrightarrow>
     users d' = users d \<and> tokens d' = tokens d \<and> emails d' = emails d"
  by (auto simp: SocialAccount_save_def Let_def split: option.splits if_splits)

lemma SocialToken_save_frame:
  "SocialToken_save d t = Inr (t', d') \<Longrightarrow>
     users d' = users d \<and> accounts d' = accounts d \<and> emails d' = emails d"
  by (auto simp: SocialToken_save_def Let_def split: option.splits if_splits)

lemma SocialToken_save_Inr:
  "SocialToken_save d t = Inr r \<Longrightarrow>
     (\<exists>a ai. tok_account t = Some a \<and> acc_pk a = Some ai \<and> \<not> token_conflict d ai t)"
  by (auto simp: SocialToken_save_def split: option.splits if_splits)

lemma filter_single_holds:
  assumes "filter P xs = [r]"
  shows "P r"
proof -
  have "r \<in> set (filter P xs)" using assms by simp
  then show ?thesis by simp
qed

lemma filter_single_only:
  assumes "filter P xs = [r]" and "x \<in> set xs" and "P x"
  shows "x = r"
proof -
  have "x \<in> set (filter P xs)" using assms(2,3) by simp
  then show ?thesis using assms(1) by simp
qed

text \<open>The one row a query found is in conflict with no other row.\<close>

lemma account_conflict_single:
  assumes "SocialAccount_objects_filter d p u = [r]"
    and "provider a = p" and "uid a = u" and "acc_pk a = Some (row_pk r)"
    and "accounts d' = accounts d"
  shows "\<not> account_conflict d' a"
proof -
  have "x = r" if "x \<in> set (accounts d)" and "row_provider x = p \<and> row_uid x = u" for x
    using filter_single_only [of "\<lambda>r. row_provider r = p \<and> row_uid r = u" "accounts d" r x]
      assms(1) that
    by (simp add: SocialAccount_objects_filter_def)
  then show ?thesis
    using assms(2-5) by (auto simp: account_conflict_def list_ex_iff)
qed

lemma token_conflict_single:
  assumes "SocialToken_objects_filter d (Some ai) ap = [r]"
    and "app t = ap" and "tok_pk t = Some (trow_pk r)"
    and "tokens d' = tokens d"
  shows "\<not> token_conflict d' ai t"
proof -
  have "x = r" if "x \<in> set (tokens d)" and "Some (trow_account_id x) = Some ai \<and> trow_app x = ap"
    for x
    using filter_single_only
            [of "\<lambda>r. Some (trow_account_id r) = Some ai \<and> trow_app r = ap" "tokens d" r x]
      assms(1) that
    by (simp add: SocialToken_objects_filter_def)
  then show ?thesis
    using assms(2-4) by (auto simp: token_conflict_def list_ex_iff)
qed

lemma token_conflict_none:
  assumes "SocialToken_objects_filter d (Some ai) (app t) = []"
    and "tokens d' = tokens d"
  shows "\<not> token_conflict d' ai t"
  using assms
  by (auto simp: token_conflict_def list_ex_iff SocialToken_objects_filter_def filter_empty_conv)

lemma account_conflict_cong:
  "accounts d' = accounts d \<Longrightarrow> provider a' = provider a \<Longrightarrow> uid a' = uid a \<Longrightarrow>
     acc_pk a' = acc_pk a \<Longrightarrow> account_conflict d' a' = account_conflict d a"
  by (simp add: account_conflict_def)

lemma token_conflict_cong:
  "tokens d' = tokens d \<Longrightarrow> app t' = app t \<Longrightarrow> tok_pk t' = tok_pk t \<Longrightarrow>
     token_conflict d' ai t' = token_conflict d ai t"
  by (simp add: token_conflict_def)

lemma account_conflict_unsaved:
  "acc_pk a = None \<Longrightarrow>
     account_conflict d a \<longleftrightarrow> SocialAccount_objects_filter d (provider a) (uid a) \<noteq> []"
  by (auto simp: account_conflict_def list_ex_iff SocialAccount_objects_filter_def
        filter_empty_conv)

text \<open>No token is stored under a fresh account key when every token belongs to an account.\<close>

lemma token_conflict_fresh:
  assumes "\<forall>r \<in> set (tokens d). \<exists>x \<in> set (accounts d). row_pk x = trow_account_id r"
  shows "\<not> token_conflict d (fresh_pk (map row_pk (accounts d))) t"
proof -
  have "trow_account_id r \<noteq> fresh_pk (map row_pk (accounts d))" if "r \<in> set (tokens d)" for r
  proof -
    from assms that obtain x where "x \<in> set (accounts d)" and "row_pk x = trow_account_id r"
      by auto
    then have "trow_account_id r \<in> set (map row_pk (accounts d))" by force
    then have "trow_account_id r < fresh_pk (map row_pk (accounts d))"
      by (rule fresh_pk_above)
    then show ?thesis by simp
  qed
  then show ?thesis by (auto simp: token_conflict_def list_ex_iff)
qed

section \<open>Reconciliation: lookup\<close>


lemma SocialToken_save_errors: "SocialToken_save d t = Inl e \<Longrightarrow> e = IntegrityError"
  by (auto simp: SocialToken_save_def Let_def split: option.splits if_splits)

lemma SocialToken_objects_get_errors:
  "SocialToken_objects_get d a ap = Inl e \<Longrightarrow>
     e = DoesNotExist SocialTokenModel \<or> e = MultipleObjectsReturned SocialTokenModel"
  by (auto simp: SocialToken_objects_get_def split: list.splits)

lemma lookup_token_errors:
  assumes "lookup_token ST d s a = (res, s', d')"
  shows "res \<noteq> Inl (DoesNotExist SocialAccountModel)"
  using assms
  by (auto simp: lookup_token_def lookup_token_try_def Let_def
           split: option.splits if_splits sum.splits prod.splits
           dest: SocialToken_save_errors SocialToken_objects_get_errors)


lemma lookup_try_match:
  assumes "SocialAccount_objects_filter d (provider c) (uid c) = [r]"
    and "find (\<lambda>x. urow_pk x = row_user_id r) (users d) = Some owner"
  shows "lookup_try ST d self c =
           lookup_token ST
             (d\<lparr>next_addr := Suc (next_addr d),
                accounts := upsert row_pk (r\<lparr>row_extra_data := extra_data c\<rparr>) (accounts d)\<rparr>)
             (self\<lparr>user := Some (user_of_row owner),
                    account := Some ((account_of_row (next_addr d) r)
                       \<lparr>extra_data := extra_data c, acc_user := Some (user_of_row owner)\<rparr>)\<rparr>)
             ((account_of_row (next_addr d) r)
                \<lparr>extra_data := extra_data c, acc_user := Some (user_of_row owner)\<rparr>)"
proof -
  have pair: "row_provider r = provider c \<and> row_uid r = uid c"
    using assms(1) filter_single_holds [of "\<lambda>r. row_provider r = provider c \<and> row_uid r = uid c" "accounts d" r]
    by (simp add: SocialAccount_objects_filter_def)
  then have "account_row_of (row_pk r) (row_user_id r)
               ((account_of_row (next_addr d) r)
                  \<lparr>extra_data := extra_data c, acc_user := Some (user_of_row owner)\<rparr>)
             = r\<lparr>row_extra_data := extra_data c\<rparr>"
    by (simp add: account_row_of_def account_of_row_def)
  moreover have "\<not> account_conflict (d\<lparr>next_addr := Suc (next_addr d)\<rparr>)
               ((account_of_row (next_addr d) r)
                  \<lparr>extra_data := extra_data c, acc_user := Some (user_of_row owner)\<rparr>)"
    using assms(1) pair
    by (intro account_conflict_single [of d "provider c" "uid c" r])
       (simp_all add: account_of_row_def)
  ultimately show ?thesis
    using assms
    by (simp add: lookup_try_def SocialAccount_objects_get_def SocialAccount_user_def
          SocialAccount_save_def Let_def account_of_row_def)
qed

lemma lookup_of_try:
  assumes "account self = Some c" and "\<not> truthy_pk (acc_pk c)"
    and "lookup_try ST d self c = (res, s', d')"
    and "res \<noteq> Inl (DoesNotExist SocialAccountModel)"
  shows "lookup ST d self = (res, s', d')"
  using assms by (simp add: lookup_def is_existing_def)

text \<open>
  C6: when the session's account has no key and no stored account has its
  \<open>(provider, uid)\<close> pair, \<^verbatim>\<open>lookup\<close> returns normally and changes neither the
  session nor the database: \<^verbatim>\<open>is_existing\<close> is still the missing key, and the
  account, the user and the token are the ones given.
\<close>

theorem lookup_no_match:
  assumes "account self = Some c"
    and "\<not> truthy_pk (acc_pk c)"
    and "SocialAccount_objects_filter d (provider c) (uid c) = []"
  shows "lookup STORE_TOKENS d self = (Inr (), self, d)
         \<and> is_existing self = Inr (acc_pk c)"
  using assms
  by (simp add: lookup_def is_existing_def lookup_try_def SocialAccount_objects_get_def)

theorem lookup_no_match_witness:
  "account first_login = Some (candidate_account\<lparr>uid := ''43''\<rparr>)
   \<and> \<not> truthy_pk (acc_pk (candidate_account\<lparr>uid := ''43''\<rparr>))
   \<and> SocialAccount_objects_filter example_db ''github'' ''43'' = []
   \<and> lookup True example_db first_login = (Inr (), first_login, example_db)"
proof -
  have h1: "account first_login = Some (candidate_account\<lparr>uid := ''43''\<rparr>)"
    by (simp add: first_login_def)
  have h2: "\<not> truthy_pk (acc_pk (candidate_account\<lparr>uid := ''43''\<rparr>))"
    by (simp add: candidate_account_def truthy_pk_def)
  have h3: "SocialAccount_objects_filter example_db
              (provider (candidate_account\<lparr>uid := ''43''\<rparr>))
              (uid (candidate_account\<lparr>uid := ''43''\<rparr>)) = []"
    by (simp add: SocialAccount_objects_filter_def example_db_def github_row_def
          candidate_account_def)
  from lookup_no_match [OF h1 h2 h3, of True] h1 h2 h3 show ?thesis
    by (simp add: candidate_account_def)
qed



text \<open>
  C2: when \<^verbatim>\<open>lookup\<close> finds the stored account, tokens are stored, the session
  has a token without a key, and one token \<open>tr\<close> is stored for the stored account and the
  token's app: \<^verbatim>\<open>lookup\<close> returns normally; the stored token takes the
  candidate's \<^verbatim>\<open>token\<close> and \<^verbatim>\<open>expires_at\<close>; it takes the candidate's
  \<^verbatim>\<open>token_secret\<close> when that is not empty and keeps its own otherwise; its row
  in the database is rewritten with these values; and the session's token is the stored
  token.
\<close>

theorem lookup_token_refresh:
  assumes "account self = Some c"
    and "\<not> truthy_pk (acc_pk c)"
    and "SocialAccount_objects_filter d (provider c) (uid c) = [r]"
    and "find (\<lambda>x. urow_pk x = row_user_id r) (users d) = Some owner"
    and "token self = Some tk"
    and "\<not> truthy_pk (tok_pk tk)"
    and "SocialToken_objects_filter d (Some (row_pk r)) (app tk) = [tr]"
  shows "\<exists>self' d'.
      lookup True d self = (Inr (), self', d')
    \<and> token self' =
        Some ((token_of_row
                 ((account_of_row (next_addr d) r)
                    \<lparr>extra_data := extra_data c, acc_user := Some (user_of_row owner)\<rparr>) tr)
               \<lparr>tok_token := tok_token tk,
                token_secret :=
                  (if token_secret tk \<noteq> [] then token_secret tk else trow_token_secret tr),
                expires_at := expires_at tk\<rparr>)
    \<and> find (\<lambda>x. trow_pk x = trow_pk tr) (tokens d') =
        Some (tr\<lparr>trow_token := tok_token tk,
                 trow_token_secret :=
                   (if token_secret tk \<noteq> [] then token_secret tk else trow_token_secret tr),
                 trow_expires_at := expires_at tk\<rparr>)"
proof -
  let ?a = "(account_of_row (next_addr d) r)
              \<lparr>extra_data := extra_data c, acc_user := Some (user_of_row owner)\<rparr>"
  let ?d2 = "d\<lparr>next_addr := Suc (next_addr d),
               accounts := upsert row_pk (r\<lparr>row_extra_data := extra_data c\<rparr>) (accounts d)\<rparr>"
  let ?s2 = "self\<lparr>user := Some (user_of_row owner), account := Some ?a\<rparr>"
  let ?sec = "if token_secret tk \<noteq> [] then token_secret tk else trow_token_secret tr"
  let ?t = "(token_of_row ?a tr)
              \<lparr>tok_token := tok_token tk, token_secret := ?sec, expires_at := expires_at tk\<rparr>"
  let ?row = "tr\<lparr>trow_token := tok_token tk, trow_token_secret := ?sec,
                 trow_expires_at := expires_at tk\<rparr>"
  let ?d3 = "?d2\<lparr>tokens := upsert trow_pk ?row (tokens d)\<rparr>"
  have acct: "trow_account_id tr = row_pk r \<and> trow_app tr = app tk"
    using assms(7)
      filter_single_holds [of "\<lambda>x. Some (trow_account_id x) = Some (row_pk r) \<and> trow_app x = app tk"
        "tokens d" tr]
    by (simp add: SocialToken_objects_filter_def)
  have get: "SocialToken_objects_get ?d2 ?a (app tk) = Inr (token_of_row ?a tr)"
    using assms(7)
    by (simp add: SocialToken_objects_get_def SocialToken_objects_filter_def account_of_row_def)
  have row: "token_row_of (trow_pk tr) (row_pk r) ?t = ?row"
    using acct by (simp add: token_row_of_def token_of_row_def)
  have nc: "\<not> token_conflict ?d2 (row_pk r) ?t"
    using assms(7) acct
    by (intro token_conflict_single [of d "row_pk r" "app tk" tr])
       (simp_all add: token_of_row_def)
  have sv: "SocialToken_save ?d2 ?t = Inr (?t, ?d3)"
    using row nc by (simp add: SocialToken_save_def token_of_row_def account_of_row_def)
  have "lookup_token_try ?d2 ?s2 ?a tk = (Inr (), ?s2\<lparr>token := Some ?t\<rparr>, ?d3)"
    using get sv
    by (cases "token_secret tk = []") (simp_all add: lookup_token_try_def Let_def token_of_row_def)
  then have "lookup_token True ?d2 ?s2 ?a = (Inr (), ?s2\<lparr>token := Some ?t\<rparr>, ?d3)"
    using assms(5,6) by (simp add: lookup_token_def)
  then have "lookup_try True d self c = (Inr (), ?s2\<lparr>token := Some ?t\<rparr>, ?d3)"
    using lookup_try_match [OF assms(3) assms(4)] by simp
  then have "lookup True d self = (Inr (), ?s2\<lparr>token := Some ?t\<rparr>, ?d3)"
    using lookup_of_try [OF assms(1) assms(2)] by simp
  moreover have "find (\<lambda>x. trow_pk x = trow_pk tr) (tokens ?d3) = Some ?row"
    using find_upsert [of trow_pk ?row "tokens d"] by simp
  ultimately show ?thesis by simp
qed

theorem lookup_token_refresh_witness:
  "account returning_login = Some candidate_account
   \<and> \<not> truthy_pk (acc_pk candidate_account)
   \<and> SocialAccount_objects_filter example_db ''github'' ''42'' = [github_row]
   \<and> find (\<lambda>x. urow_pk x = row_user_id github_row) (users example_db) = Some alice_row
   \<and> token returning_login = Some candidate_token
   \<and> \<not> truthy_pk (tok_pk candidate_token)
   \<and> token_secret candidate_token = []
   \<and> SocialToken_objects_filter example_db (Some 1) 1 = [stored_token_row]
   \<and> fst (lookup True example_db returning_login) = Inr ()
   \<and> token (fst (snd (lookup True example_db returning_login))) =
        Some \<lparr>tok_pk = Some 1, app = 1, tok_account = Some stored_account, active = True,
              tok_token = ''a2'', token_secret = ''r1'', expires_at = Some 3600\<rparr>
   \<and> find (\<lambda>x. trow_pk x = 1) (tokens (snd (snd (lookup True example_db returning_login)))) =
        Some \<lparr>trow_pk = 1, trow_app = 1, trow_account_id = 1, trow_active = True,
              trow_token = ''a2'', trow_token_secret = ''r1'', trow_expires_at = Some 3600\<rparr>"
proof -
  have h1: "account returning_login = Some candidate_account"
    by (simp add: returning_login_def)
  have h2: "\<not> truthy_pk (acc_pk candidate_account)"
    by (simp add: candidate_account_def truthy_pk_def)
  have h3: "SocialAccount_objects_filter example_db (provider candidate_account)
              (uid candidate_account) = [github_row]"
    by (simp add: SocialAccount_objects_filter_def example_db_def github_row_def
          candidate_account_def)
  have h4: "find (\<lambda>x. urow_pk x = row_user_id github_row) (users example_db) = Some alice_row"
    by (simp add: example_db_def github_row_def alice_row_def)
  have h5: "token returning_login = Some candidate_token"
    by (simp add: returning_login_def)
  have h6: "\<not> truthy_pk (tok_pk candidate_token)"
    by (simp add: candidate_token_def truthy_pk_def)
  have h7: "SocialToken_objects_filter example_db (Some (row_pk github_row)) (app candidate_token)
              = [stored_token_row]"
    by (simp add: SocialToken_objects_filter_def example_db_def github_row_def
          stored_token_row_def candidate_token_def)
  from lookup_token_refresh [OF h1 h2 h3 h4 h5 h6 h7]
  obtain s' d' where
    run: "lookup True example_db returning_login = (Inr (), s', d')"
    and tok: "token s' =
        Some ((token_of_row
                 ((account_of_row (next_addr example_db) github_row)
                    \<lparr>extra_data := extra_data candidate_account,
                      acc_user := Some (user_of_row alice_row)\<rparr>) stored_token_row)
               \<lparr>tok_token := tok_token candidate_token,
                token_secret :=
                  (if token_secret candidate_token \<noteq> [] then token_secret candidate_token
                   else trow_token_secret stored_token_row),
                expires_at := expires_at candidate_token\<rparr>)"
    and row: "find (\<lambda>x. trow_pk x = trow_pk stored_token_row) (tokens d') =
        Some (stored_token_row\<lparr>trow_token := tok_token candidate_token,
                 trow_token_secret :=
                   (if token_secret candidate_token \<noteq> [] then token_secret candidate_token
                    else trow_token_secret stored_token_row),
                 trow_expires_at := expires_at candidate_token\<rparr>)"
    by blast
  have stored: "(account_of_row (next_addr example_db) github_row)
                \<lparr>extra_data := extra_data candidate_account,
                  acc_user := Some (user_of_row alice_row)\<rparr> = stored_account"
    by (simp add: account_of_row_def user_of_row_def example_defs)
  show ?thesis
    using h1 h2 h3 h4 h5 h6 h7 run tok row stored
    by (simp add: token_of_row_def stored_token_row_def candidate_token_def github_row_def
          candidate_account_def)
qed

text \<open>
  C10: when \<^verbatim>\<open>lookup\<close> finds the stored account, tokens are stored and the
  session has a token, \<^verbatim>\<open>lookup\<close> raises \<^verbatim>\<open>AssertionError\<close> exactly
  when the token has a key; the token and the token table are then left as they were.
\<close>

theorem lookup_asserts_unsaved_token:
  assumes "account self = Some c"
    and "\<not> truthy_pk (acc_pk c)"
    and "SocialAccount_objects_filter d (provider c) (uid c) = [r]"
    and "find (\<lambda>x. urow_pk x = row_user_id r) (users d) = Some owner"
    and "token self = Some tk"
  shows "(fst (lookup True d self) = Inl AssertionError \<longleftrightarrow> truthy_pk (tok_pk tk))
       \<and> (truthy_pk (tok_pk tk) \<longrightarrow>
            token (fst (snd (lookup True d self))) = Some tk
          \<and> tokens (snd (snd (lookup True d self))) = tokens d)"
proof -
  let ?a = "(account_of_row (next_addr d) r)
              \<lparr>extra_data := extra_data c, acc_user := Some (user_of_row owner)\<rparr>"
  let ?d2 = "d\<lparr>next_addr := Suc (next_addr d),
               accounts := upsert row_pk (r\<lparr>row_extra_data := extra_data c\<rparr>) (accounts d)\<rparr>"
  let ?s2 = "self\<lparr>user := Some (user_of_row owner), account := Some ?a\<rparr>"
  obtain res s' d' where tk: "lookup_token True ?d2 ?s2 ?a = (res, s', d')"
    by (cases "lookup_token True ?d2 ?s2 ?a") auto
  have "lookup_try True d self c = (res, s', d')"
    using lookup_try_match [OF assms(3) assms(4)] tk by simp
  then have lk: "lookup True d self = (res, s', d')"
    using lookup_of_try [OF assms(1) assms(2)] lookup_token_errors [OF tk] by simp
  show ?thesis
  proof (cases "truthy_pk (tok_pk tk)")
    case True
    then have "lookup_token True ?d2 ?s2 ?a = (Inl AssertionError, ?s2, ?d2)"
      using assms(5) by (simp add: lookup_token_def)
    with tk lk True assms(5) show ?thesis by auto
  next
    case False
    have "res \<noteq> Inl AssertionError"
      using tk False assms(5)
      by (auto simp: lookup_token_def lookup_token_try_def Let_def
               split: option.splits if_splits sum.splits prod.splits
               dest: SocialToken_save_errors SocialToken_objects_get_errors)
    with lk False show ?thesis by simp
  qed
qed

theorem lookup_asserts_unsaved_token_witness:
  "account (returning_login\<lparr>token := Some (candidate_token\<lparr>tok_pk := Some 7\<rparr>)\<rparr>)
      = Some candidate_account
   \<and> \<not> truthy_pk (acc_pk candidate_account)
   \<and> SocialAccount_objects_filter example_db ''github'' ''42'' = [github_row]
   \<and> find (\<lambda>x. urow_pk x = row_user_id github_row) (users example_db) = Some alice_row
   \<and> truthy_pk (tok_pk (candidate_token\<lparr>tok_pk := Some 7\<rparr>))
   \<and> fst (lookup True example_db
             (returning_login\<lparr>token := Some (candidate_token\<lparr>tok_pk := Some 7\<rparr>)\<rparr>))
        = Inl AssertionError
   \<and> tokens (snd (snd (lookup True example_db
             (returning_login\<lparr>token := Some (candidate_token\<lparr>tok_pk := Some 7\<rparr>)\<rparr>))))
        = [stored_token_row]
   \<and> \<not> truthy_pk (tok_pk candidate_token)
   \<and> fst (lookup True example_db returning_login) \<noteq> Inl AssertionError"
proof -
  let ?s = "returning_login\<lparr>token := Some (candidate_token\<lparr>tok_pk := Some 7\<rparr>)\<rparr>"
  have h1: "account ?s = Some candidate_account"
    by (simp add: returning_login_def)
  have h1': "account returning_login = Some candidate_account"
    by (simp add: returning_login_def)
  have h2: "\<not> truthy_pk (acc_pk candidate_account)"
    by (simp add: candidate_account_def truthy_pk_def)
  have h3: "SocialAccount_objects_filter example_db (provider candidate_account)
              (uid candidate_account) = [github_row]"
    by (simp add: SocialAccount_objects_filter_def example_db_def github_row_def
          candidate_account_def)
  have h4: "find (\<lambda>x. urow_pk x = row_user_id github_row) (users example_db) = Some alice_row"
    by (simp add: example_db_def github_row_def alice_row_def)
  have h5: "token ?s = Some (candidate_token\<lparr>tok_pk := Some 7\<rparr>)"
    by simp
  have h5': "token returning_login = Some candidate_token"
    by (simp add: returning_login_def)
  have t1: "truthy_pk (tok_pk (candidate_token\<lparr>tok_pk := Some 7\<rparr>))"
    by (simp add: truthy_pk_def)
  have t2: "\<not> truthy_pk (tok_pk candidate_token)"
    by (simp add: candidate_token_def truthy_pk_def)
  from lookup_asserts_unsaved_token [OF h1 h2 h3 h4 h5]
       lookup_asserts_unsaved_token [OF h1' h2 h3 h4 h5']
  show ?thesis
    using h1 h2 h3 h4 t1 t2
    by (simp add: example_db_def candidate_account_def)
qed

section \<open>Commit: save\<close>

lemma save_steps:
  assumes "account self = Some a" and "\<not> truthy_pk (acc_pk a)" and "user self = Some u"
    and "User_save d u = (u', d1)"
    and "SocialAccount_save d1 (set_account_user a u') = Inr (a2, d2)"
  shows "save ST es d self req con =
     (case (case token self of
              None \<Rightarrow> (Inr (), self\<lparr>user := Some u', account := Some a2\<rparr>, d2)
            | Some tk \<Rightarrow>
                if ST then
                  (case SocialToken_save d2 (tk\<lparr>tok_account := Some a2\<rparr>) of
                     Inl e \<Rightarrow>
                       (Inl e, self\<lparr>token := Some (tk\<lparr>tok_account := Some a2\<rparr>),
                                    user := Some u', account := Some a2\<rparr>, d2)
                   | Inr (tk2, d3) \<Rightarrow>
                       (Inr (), self\<lparr>token := Some tk2, user := Some u', account := Some a2\<rparr>, d3))
                else (Inr (), self\<lparr>user := Some u', account := Some a2\<rparr>, d2)) of
        (Inl e, self4, d4) \<Rightarrow> (Inl e, self4, d4)
      | (Inr _, self4, d4) \<Rightarrow>
          if con then (Inr (), self4, d4)
          else (Inr (), self4, es req u' (email_addresses self4) d4))"
  using assms
  apply (simp add: save_def is_existing_def Let_def)
  apply (cases "token self")
   apply simp
  apply (simp split: sum.splits prod.splits)
  done

lemma save_run_plain:
  assumes "account self = Some a" and "\<not> truthy_pk (acc_pk a)" and "user self = Some u"
    and "User_save d u = (u', d1)"
    and "SocialAccount_save d1 (set_account_user a u') = Inr (a2, d2)"
    and "token self = None \<or> \<not> ST"
  shows "save ST es d self req con =
           (Inr (), self\<lparr>user := Some u', account := Some a2\<rparr>,
            if con then d2 else es req u' (email_addresses self) d2)"
  using assms(6)
  by (cases "token self") (simp_all add: save_steps [OF assms(1-5)])

lemma save_run_token:
  assumes "account self = Some a" and "\<not> truthy_pk (acc_pk a)" and "user self = Some u"
    and "User_save d u = (u', d1)"
    and "SocialAccount_save d1 (set_account_user a u') = Inr (a2, d2)"
    and "token self = Some tk" and "ST"
    and "SocialToken_save d2 (tk\<lparr>tok_account := Some a2\<rparr>) = Inr (tk2, d3)"
  shows "save ST es d self req con =
           (Inr (), self\<lparr>token := Some tk2, user := Some u', account := Some a2\<rparr>,
            if con then d3 else es req u' (email_addresses self) d3)"
  using assms(6-8)
  by (simp add: save_steps [OF assms(1-5)])

lemma save_account_error:
  assumes "account self = Some a" and "\<not> truthy_pk (acc_pk a)" and "user self = Some u"
    and "User_save d u = (u', d1)"
    and "SocialAccount_save d1 (set_account_user a u') = Inl e"
  shows "save ST es d self req con =
           (Inl e, self\<lparr>user := Some u', account := Some (set_account_user a u')\<rparr>, d1)"
  using assms by (simp add: save_def is_existing_def Let_def)

lemma save_token_error:
  assumes "account self = Some a" and "\<not> truthy_pk (acc_pk a)" and "user self = Some u"
    and "User_save d u = (u', d1)"
    and "SocialAccount_save d1 (set_account_user a u') = Inr (a2, d2)"
    and "token self = Some tk" and "ST"
    and "SocialToken_save d2 (tk\<lparr>tok_account := Some a2\<rparr>) = Inl e"
  shows "save ST es d self req con =
           (Inl e, self\<lparr>token := Some (tk\<lparr>tok_account := Some a2\<rparr>), user := Some u',
                        account := Some a2\<rparr>, d2)"
  using assms(6-8)
  by (simp add: save_steps [OF assms(1-5)])

text \<open>
  The run of \<^verbatim>\<open>save\<close> when neither write is refused; \<open>pa\<close> is the key the
  account has afterwards.
\<close>

lemma save_new:
  assumes "account self = Some a" and "\<not> truthy_pk (acc_pk a)" and "user self = Some u"
    and "\<not> account_conflict d a"
    and "pa = (case acc_pk a of None \<Rightarrow> fresh_pk (map row_pk (accounts d)) | Some q \<Rightarrow> q)"
    and "\<forall>tk. ST \<and> token self = Some tk \<longrightarrow> \<not> token_conflict d pa tk"
  obtains pu self' d4 where
      "\<forall>es. save ST es d self req True = (Inr (), self', d4)"
    and "\<forall>es. save ST es d self req False =
          (Inr (), self', es req (u\<lparr>user_pk := Some pu\<rparr>) (email_addresses self) d4)"
    and "user self' = Some (u\<lparr>user_pk := Some pu\<rparr>)"
    and "account self' =
        Some (a\<lparr>acc_user := Some (u\<lparr>user_pk := Some pu\<rparr>), acc_user_id := Some pu,
                acc_pk := Some pa\<rparr>)"
    and "email_addresses self' = email_addresses self" and "state self' = state self"
    and "user_pk u = None \<longrightarrow> pu \<noteq> 0" and "\<forall>q. user_pk u = Some q \<longrightarrow> pu = q"
    and "acc_pk a = None \<longrightarrow> pa \<noteq> 0"
    and "find (\<lambda>x. urow_pk x = pu) (users d4) = Some \<lparr>urow_pk = pu, urow_username = username u\<rparr>"
    and "find (\<lambda>x. row_pk x = pa) (accounts d4) =
        Some \<lparr>row_pk = pa, row_user_id = pu, row_provider = provider a, row_uid = uid a,
              row_extra_data = extra_data a\<rparr>"
    and "emails d4 = emails d"
    and "token self = None \<or> \<not> ST \<longrightarrow> token self' = token self \<and> tokens d4 = tokens d"
    and "\<forall>tk. ST \<and> token self = Some tk \<longrightarrow>
          (\<exists>pt. token self' =
                  Some (tk\<lparr>tok_account := account self', tok_pk := Some pt\<rparr>)
              \<and> (tok_pk tk = None \<longrightarrow> pt \<noteq> 0)
              \<and> find (\<lambda>x. trow_pk x = pt) (tokens d4) =
                  Some \<lparr>trow_pk = pt, trow_app = app tk, trow_account_id = pa,
                        trow_active = active tk, trow_token = tok_token tk,
                        trow_token_secret = token_secret tk,
                        trow_expires_at = expires_at tk\<rparr>)"
proof -
  obtain u' d1 where us: "User_save d u = (u', d1)"
    by (cases "User_save d u") auto
  from User_save_result [OF us] obtain pu where
    u': "u' = u\<lparr>user_pk := Some pu\<rparr>"
    and pu: "user_pk u = None \<longrightarrow> pu \<noteq> 0" "\<forall>q. user_pk u = Some q \<longrightarrow> pu = q"
    and urow: "find (\<lambda>x. urow_pk x = pu) (users d1) = Some \<lparr>urow_pk = pu, urow_username = username u\<rparr>"
    and d1: "accounts d1 = accounts d" "tokens d1 = tokens d" "emails d1 = emails d"
    by auto
  let ?u = "u\<lparr>user_pk := Some pu\<rparr>"
  have us': "User_save d u = (?u, d1)" using us u' by simp
  have uid1: "acc_user_id (set_account_user a ?u) = Some pu"
    by (simp add: set_account_user_def)
  have nc1: "\<not> account_conflict d1 (set_account_user a ?u)"
    using assms(4) account_conflict_cong [of d1 d "set_account_user a ?u" a] d1(1)
    by (simp add: set_account_user_def)
  from SocialAccount_save_result [OF uid1 nc1] obtain p d2 where
    as: "SocialAccount_save d1 (set_account_user a ?u) =
           Inr ((set_account_user a ?u)\<lparr>acc_pk := Some p\<rparr>, d2)"
    and pf: "acc_pk (set_account_user a ?u) = None \<longrightarrow> p = fresh_pk (map row_pk (accounts d1))"
    and pz: "acc_pk (set_account_user a ?u) = None \<longrightarrow> p \<noteq> 0"
    and pq: "\<forall>q. acc_pk (set_account_user a ?u) = Some q \<longrightarrow> p = q"
    and arow: "find (\<lambda>x. row_pk x = p) (accounts d2) =
                 Some (account_row_of p pu (set_account_user a ?u))"
    and d2: "users d2 = users d1" "tokens d2 = tokens d1" "emails d2 = emails d1"
    by auto
  have p: "p = pa"
    using pf pq assms(5) d1(1) by (cases "acc_pk a") (simp_all add: set_account_user_def)
  define a2 where "a2 = a\<lparr>acc_user := Some ?u, acc_user_id := Some pu, acc_pk := Some pa\<rparr>"
  have a2: "(set_account_user a ?u)\<lparr>acc_pk := Some p\<rparr> = a2"
    by (simp add: set_account_user_def a2_def p)
  have as': "SocialAccount_save d1 (set_account_user a ?u) = Inr (a2, d2)"
    using as a2 by simp
  have arow': "find (\<lambda>x. row_pk x = pa) (accounts d2) =
        Some \<lparr>row_pk = pa, row_user_id = pu, row_provider = provider a, row_uid = uid a,
              row_extra_data = extra_data a\<rparr>"
    using arow p by (simp add: account_row_of_def set_account_user_def)
  have pa': "acc_pk a = None \<longrightarrow> pa \<noteq> 0"
    using pz p by (simp add: set_account_user_def)
  have urow2: "find (\<lambda>x. urow_pk x = pu) (users d2) = Some \<lparr>urow_pk = pu, urow_username = username u\<rparr>"
    using urow d2(1) by simp
  have em2: "emails d2 = emails d" using d1 d2 by simp
  have tk2: "tokens d2 = tokens d" using d1 d2 by simp
  show ?thesis
  proof (cases "token self = None \<or> \<not> ST")
    case True
    define s2 where "s2 = self\<lparr>user := Some ?u, account := Some a2\<rparr>"
    have run: "save ST es d self req con =
            (Inr (), s2, if con then d2 else es req ?u (email_addresses self) d2)"
      for es con
      unfolding s2_def by (rule save_run_plain [OF assms(1-3) us' as' True])
    have c1: "\<forall>es. save ST es d self req True = (Inr (), s2, d2)"
      using run [of _ True] by simp
    have c2: "\<forall>es. save ST es d self req False =
          (Inr (), s2, es req ?u (email_addresses self) d2)"
      using run [of _ False] by simp
    have c3: "user s2 = Some ?u" "account s2 = Some a2"
      "email_addresses s2 = email_addresses self" "state s2 = state self"
      "token s2 = token self"
      by (simp_all add: s2_def)
    show ?thesis
      apply (rule that [of s2 d2 pu])
      using c1 c2 c3 pu pa' urow2 arow' em2 tk2 True
                   apply (simp_all add: a2_def)
       apply auto
      done
  next
    case False
    then obtain tk where tk: "token self = Some tk" and st: ST by auto
    have tacc: "tok_account (tk\<lparr>tok_account := Some a2\<rparr>) = Some a2" and apk: "acc_pk a2 = Some pa"
      by (simp_all add: a2_def)
    have nct: "\<not> token_conflict d2 pa (tk\<lparr>tok_account := Some a2\<rparr>)"
      using assms(6) tk st token_conflict_cong [of d2 d "tk\<lparr>tok_account := Some a2\<rparr>" tk pa] tk2
      by simp
    from SocialToken_save_result [OF tacc apk nct] obtain pt d3 where
      ts: "SocialToken_save d2 (tk\<lparr>tok_account := Some a2\<rparr>) =
             Inr (tk\<lparr>tok_account := Some a2, tok_pk := Some pt\<rparr>, d3)"
      and pt: "tok_pk (tk\<lparr>tok_account := Some a2\<rparr>) = None \<longrightarrow> pt \<noteq> 0"
      and trow: "find (\<lambda>x. trow_pk x = pt) (tokens d3) =
                   Some (token_row_of pt pa (tk\<lparr>tok_account := Some a2\<rparr>))"
      and d3: "users d3 = users d2" "accounts d3 = accounts d2" "emails d3 = emails d2"
      by auto
    define s3 where "s3 = self\<lparr>token := Some (tk\<lparr>tok_account := Some a2, tok_pk := Some pt\<rparr>),
                              user := Some ?u, account := Some a2\<rparr>"
    have run: "save ST es d self req con =
            (Inr (), s3, if con then d3 else es req ?u (email_addresses self) d3)"
      for es con
      unfolding s3_def by (rule save_run_token [OF assms(1-3) us' as' tk st ts])
    have c1: "\<forall>es. save ST es d self req True = (Inr (), s3, d3)"
      using run [of _ True] by simp
    have c2: "\<forall>es. save ST es d self req False =
          (Inr (), s3, es req ?u (email_addresses self) d3)"
      using run [of _ False] by simp
    have c3: "user s3 = Some ?u" "account s3 = Some a2"
      "email_addresses s3 = email_addresses self" "state s3 = state self"
      by (simp_all add: s3_def)
    have trow': "find (\<lambda>x. trow_pk x = pt) (tokens d3) =
                  Some \<lparr>trow_pk = pt, trow_app = app tk, trow_account_id = pa,
                        trow_active = active tk, trow_token = tok_token tk,
                        trow_token_secret = token_secret tk,
                        trow_expires_at = expires_at tk\<rparr>"
      using trow by (simp add: token_row_of_def)
    have pt': "tok_pk tk = None \<longrightarrow> pt \<noteq> 0" using pt by simp
    have c4: "\<forall>tk'. ST \<and> token self = Some tk' \<longrightarrow>
          (\<exists>pt. token s3 = Some (tk'\<lparr>tok_account := account s3, tok_pk := Some pt\<rparr>)
              \<and> (tok_pk tk' = None \<longrightarrow> pt \<noteq> 0)
              \<and> find (\<lambda>x. trow_pk x = pt) (tokens d3) =
                  Some \<lparr>trow_pk = pt, trow_app = app tk', trow_account_id = pa,
                        trow_active = active tk', trow_token = tok_token tk',
                        trow_token_secret = token_secret tk',
                        trow_expires_at = expires_at tk'\<rparr>)"
      using tk pt' trow' by (auto simp: s3_def)
    have c5: "token self = None \<or> \<not> ST \<longrightarrow> token s3 = token self \<and> tokens d3 = tokens d"
      using tk st by simp
    have urow3: "find (\<lambda>x. urow_pk x = pu) (users d3) = Some \<lparr>urow_pk = pu, urow_username = username u\<rparr>"
      using urow2 d3 by simp
    have arow3: "find (\<lambda>x. row_pk x = pa) (accounts d3) =
        Some \<lparr>row_pk = pa, row_user_id = pu, row_provider = provider a, row_uid = uid a,
              row_extra_data = extra_data a\<rparr>"
      using arow' d3 by simp
    have em3: "emails d3 = emails d" using em2 d3 by simp
    show ?thesis
      apply (rule that [of s3 d3 pu])
      using c1 c2 c3 c4 c5 pu pa' urow3 arow3 em3
                   apply (simp_all add: a2_def)
      done
  qed
qed

text \<open>
  What \<^verbatim>\<open>save\<close> returns, for every session: the outcome \<open>r\<close>, the session
  \<open>s4\<close> and the database \<open>d4\<close> of the writes do not depend on
  \<^verbatim>\<open>connect\<close>, and \<^verbatim>\<open>setup_user_email\<close> is applied to \<open>d4\<close> exactly
  when the writes succeeded and \<^verbatim>\<open>connect\<close> is false.
\<close>

lemma save_shape:
  obtains r s4 d4 u' where
    "\<forall>es con. save ST es d self req con =
        (r, s4, if r = Inr () \<and> \<not> con then es req u' (email_addresses self) d4 else d4)"
    and "emails d4 = emails d" and "r = Inr () \<longrightarrow> user s4 = Some u'"
proof (cases "account self")
  case None
  have "\<forall>es con. save ST es d self req con = (Inl AttributeError, self, d)"
    using None by (simp add: save_def is_existing_def)
  then show ?thesis
    by (intro that [of "Inl AttributeError" self "\<lparr>user_pk = None, username = []\<rparr>" d]) simp_all
next
  case (Some a)
  note acc = Some
  show ?thesis
  proof (cases "truthy_pk (acc_pk a)")
    case True
    have "\<forall>es con. save ST es d self req con = (Inl AssertionError, self, d)"
      using acc True by (simp add: save_def is_existing_def)
    then show ?thesis
      by (intro that [of "Inl AssertionError" self "\<lparr>user_pk = None, username = []\<rparr>" d])
        simp_all
  next
    case False
    note nex = False
    show ?thesis
    proof (cases "user self")
      case None
      have "\<forall>es con. save ST es d self req con = (Inl AttributeError, self, d)"
        using acc nex None by (simp add: save_def is_existing_def)
      then show ?thesis
        by (intro that [of "Inl AttributeError" self "\<lparr>user_pk = None, username = []\<rparr>" d])
          simp_all
    next
      case (Some u)
      note usr = Some
      obtain u' d1 where us: "User_save d u = (u', d1)"
        by (cases "User_save d u") auto
      from User_save_result [OF us] have em1: "emails d1 = emails d" by auto
      show ?thesis
      proof (cases "SocialAccount_save d1 (set_account_user a u')")
        case (Inl e)
        have "\<forall>es con. save ST es d self req con =
                (Inl e, self\<lparr>user := Some u', account := Some (set_account_user a u')\<rparr>, d1)"
          using save_account_error [OF acc nex usr us Inl] by simp
        then show ?thesis
          by (intro that [of "Inl e"
                 "self\<lparr>user := Some u', account := Some (set_account_user a u')\<rparr>" u' d1])
             (simp_all add: em1)
      next
        case (Inr p)
        obtain a2 d2 where p: "p = (a2, d2)" by (cases p)
        have as: "SocialAccount_save d1 (set_account_user a u') = Inr (a2, d2)"
          using Inr p by simp
        have em2: "emails d2 = emails d"
          using SocialAccount_save_frame [OF as] em1 by simp
        show ?thesis
        proof (cases "token self = None \<or> \<not> ST")
          case True
          have "\<forall>es con. save ST es d self req con =
                  (Inr (), self\<lparr>user := Some u', account := Some a2\<rparr>,
                   if con then d2 else es req u' (email_addresses self) d2)"
            using save_run_plain [OF acc nex usr us as True] by simp
          then show ?thesis
            by (intro that [of "Inr ()" "self\<lparr>user := Some u', account := Some a2\<rparr>" u' d2])
               (simp_all add: em2)
        next
          case False
          then obtain tk where tk: "token self = Some tk" and st: ST by auto
          show ?thesis
          proof (cases "SocialToken_save d2 (tk\<lparr>tok_account := Some a2\<rparr>)")
            case (Inl e)
            have "\<forall>es con. save ST es d self req con =
                    (Inl e, self\<lparr>token := Some (tk\<lparr>tok_account := Some a2\<rparr>), user := Some u',
                                 account := Some a2\<rparr>, d2)"
              using save_token_error [OF acc nex usr us as tk st Inl] by simp
            then show ?thesis
              by (intro that [of "Inl e"
                     "self\<lparr>token := Some (tk\<lparr>tok_account := Some a2\<rparr>), user := Some u',
                           account := Some a2\<rparr>" u' d2])
                 (simp_all add: em2)
          next
            case (Inr q)
            obtain tk2 d3 where q: "q = (tk2, d3)" by (cases q)
            have ts: "SocialToken_save d2 (tk\<lparr>tok_account := Some a2\<rparr>) = Inr (tk2, d3)"
              using Inr q by simp
            have em3: "emails d3 = emails d"
              using SocialToken_save_frame [OF ts] em2 by simp
            have "\<forall>es con. save ST es d self req con =
                    (Inr (), self\<lparr>token := Some tk2, user := Some u', account := Some a2\<rparr>,
                     if con then d3 else es req u' (email_addresses self) d3)"
              using save_run_token [OF acc nex usr us as tk st ts] by simp
            then show ?thesis
              by (intro that [of "Inr ()"
                     "self\<lparr>token := Some tk2, user := Some u', account := Some a2\<rparr>" u' d3])
                 (simp_all add: em3)
          qed
        qed
      qed
    qed
  qed
qed

text \<open>A run of \<^verbatim>\<open>save\<close> that returned normally met no refusal.\<close>

lemma save_success:
  assumes "save ST es d self req con = (Inr (), s', d')"
  obtains a u where "account self = Some a" and "\<not> truthy_pk (acc_pk a)"
    and "user self = Some u" and "\<not> account_conflict d a"
    and "\<forall>tk. ST \<and> token self = Some tk \<longrightarrow>
           \<not> token_conflict d
               (case acc_pk a of None \<Rightarrow> fresh_pk (map row_pk (accounts d)) | Some q \<Rightarrow> q) tk"
proof -
  obtain a where acc: "account self = Some a"
    using assms by (cases "account self") (simp_all add: save_def is_existing_def)
  have nex: "\<not> truthy_pk (acc_pk a)"
    using assms acc by (cases "truthy_pk (acc_pk a)") (simp_all add: save_def is_existing_def)
  obtain u where usr: "user self = Some u"
    using assms acc nex by (cases "user self") (simp_all add: save_def is_existing_def)
  obtain u' d1 where us: "User_save d u = (u', d1)"
    by (cases "User_save d u") auto
  from User_save_result [OF us] have d1: "accounts d1 = accounts d" "tokens d1 = tokens d"
    by auto
  obtain a2 d2 where as: "SocialAccount_save d1 (set_account_user a u') = Inr (a2, d2)"
  proof (cases "SocialAccount_save d1 (set_account_user a u')")
    case (Inl e)
    from save_account_error [OF acc nex usr us Inl, of ST es req con] assms
    show ?thesis by simp
  next
    case (Inr p)
    then show ?thesis using that by (cases p) simp
  qed
  from SocialAccount_save_Inr [OF as]
  have ui: "acc_user_id (set_account_user a u') \<noteq> None"
    and nc1: "\<not> account_conflict d1 (set_account_user a u')"
    by simp_all
  have nc: "\<not> account_conflict d a"
    using nc1 account_conflict_cong [of d1 d "set_account_user a u'" a] d1(1)
    by (simp add: set_account_user_def)
  from ui obtain i where ui': "acc_user_id (set_account_user a u') = Some i" by auto
  from SocialAccount_save_result [OF ui' nc1] as
  have a2: "acc_pk a2 =
      Some (case acc_pk a of None \<Rightarrow> fresh_pk (map row_pk (accounts d)) | Some q \<Rightarrow> q)"
    and tk2: "tokens d2 = tokens d"
    using d1 by (cases "acc_pk a"; auto simp: set_account_user_def)+
  have tnc: "\<not> token_conflict d
               (case acc_pk a of None \<Rightarrow> fresh_pk (map row_pk (accounts d)) | Some q \<Rightarrow> q) tk"
    if st: ST and tk: "token self = Some tk" for tk
  proof (cases "SocialToken_save d2 (tk\<lparr>tok_account := Some a2\<rparr>)")
    case (Inl e)
    from save_token_error [OF acc nex usr us as tk st Inl, of es req con] assms
    show ?thesis by simp
  next
    case (Inr q)
    from SocialToken_save_Inr [OF Inr] a2
    have "\<not> token_conflict d2
           (case acc_pk a of None \<Rightarrow> fresh_pk (map row_pk (accounts d)) | Some q \<Rightarrow> q)
           (tk\<lparr>tok_account := Some a2\<rparr>)"
      by auto
    then show ?thesis
      using token_conflict_cong [of d2 d "tk\<lparr>tok_account := Some a2\<rparr>" tk] tk2 by simp
  qed
  show ?thesis
    by (rule that [OF acc nex usr nc]) (use tnc in auto)
qed

text \<open>What a run of \<^verbatim>\<open>save\<close> that returned normally has written.\<close>

lemma save_persists:
  assumes "save ST es d self req con = (Inr (), s', d')"
  obtains a u pu pa d4 where
      "account self = Some a" and "\<not> truthy_pk (acc_pk a)" and "user self = Some u"
    and "d' = (if con then d4 else es req (u\<lparr>user_pk := Some pu\<rparr>) (email_addresses self) d4)"
    and "user s' = Some (u\<lparr>user_pk := Some pu\<rparr>)"
    and "account s' =
        Some (a\<lparr>acc_user := Some (u\<lparr>user_pk := Some pu\<rparr>), acc_user_id := Some pu,
                acc_pk := Some pa\<rparr>)"
    and "email_addresses s' = email_addresses self" and "state s' = state self"
    and "user_pk u = None \<longrightarrow> pu \<noteq> 0" and "\<forall>q. user_pk u = Some q \<longrightarrow> pu = q"
    and "acc_pk a = None \<longrightarrow> pa \<noteq> 0" and "\<forall>q. acc_pk a = Some q \<longrightarrow> pa = q"
    and "find (\<lambda>x. urow_pk x = pu) (users d4) = Some \<lparr>urow_pk = pu, urow_username = username u\<rparr>"
    and "find (\<lambda>x. row_pk x = pa) (accounts d4) =
        Some \<lparr>row_pk = pa, row_user_id = pu, row_provider = provider a, row_uid = uid a,
              row_extra_data = extra_data a\<rparr>"
    and "emails d4 = emails d"
    and "token self = None \<or> \<not> ST \<longrightarrow> token s' = token self \<and> tokens d4 = tokens d"
    and "\<forall>tk. ST \<and> token self = Some tk \<longrightarrow>
          (\<exists>pt. token s' =
                  Some (tk\<lparr>tok_account := account s', tok_pk := Some pt\<rparr>)
              \<and> (tok_pk tk = None \<longrightarrow> pt \<noteq> 0)
              \<and> find (\<lambda>x. trow_pk x = pt) (tokens d4) =
                  Some \<lparr>trow_pk = pt, trow_app = app tk, trow_account_id = pa,
                        trow_active = active tk, trow_token = tok_token tk,
                        trow_token_secret = token_secret tk,
                        trow_expires_at = expires_at tk\<rparr>)"
proof -
  obtain a u where acc: "account self = Some a" and nex: "\<not> truthy_pk (acc_pk a)"
    and usr: "user self = Some u" and nc: "\<not> account_conflict d a"
    and tnc: "\<forall>tk. ST \<and> token self = Some tk \<longrightarrow>
           \<not> token_conflict d
               (case acc_pk a of None \<Rightarrow> fresh_pk (map row_pk (accounts d)) | Some q \<Rightarrow> q) tk"
    by (rule save_success [OF assms])
  define pa where
    "pa = (case acc_pk a of None \<Rightarrow> fresh_pk (map row_pk (accounts d)) | Some q \<Rightarrow> q)"
  have tnc': "\<forall>tk. ST \<and> token self = Some tk \<longrightarrow> \<not> token_conflict d pa tk"
    using tnc by (simp add: pa_def)
  have paq: "\<forall>q. acc_pk a = Some q \<longrightarrow> pa = q" by (simp add: pa_def)
  obtain pu self' d4 where
      run_t: "\<forall>es. save ST es d self req True = (Inr (), self', d4)"
    and run_f: "\<forall>es. save ST es d self req False =
          (Inr (), self', es req (u\<lparr>user_pk := Some pu\<rparr>) (email_addresses self) d4)"
    and c: "user self' = Some (u\<lparr>user_pk := Some pu\<rparr>)"
      "account self' =
        Some (a\<lparr>acc_user := Some (u\<lparr>user_pk := Some pu\<rparr>), acc_user_id := Some pu,
                acc_pk := Some pa\<rparr>)"
      "email_addresses self' = email_addresses self" "state self' = state self"
      "user_pk u = None \<longrightarrow> pu \<noteq> 0" "\<forall>q. user_pk u = Some q \<longrightarrow> pu = q"
      "acc_pk a = None \<longrightarrow> pa \<noteq> 0"
      "find (\<lambda>x. urow_pk x = pu) (users d4) = Some \<lparr>urow_pk = pu, urow_username = username u\<rparr>"
      "find (\<lambda>x. row_pk x = pa) (accounts d4) =
        Some \<lparr>row_pk = pa, row_user_id = pu, row_provider = provider a, row_uid = uid a,
              row_extra_data = extra_data a\<rparr>"
      "emails d4 = emails d"
      "token self = None \<or> \<not> ST \<longrightarrow> token self' = token self \<and> tokens d4 = tokens d"
      "\<forall>tk. ST \<and> token self = Some tk \<longrightarrow>
          (\<exists>pt. token self' =
                  Some (tk\<lparr>tok_account := account self', tok_pk := Some pt\<rparr>)
              \<and> (tok_pk tk = None \<longrightarrow> pt \<noteq> 0)
              \<and> find (\<lambda>x. trow_pk x = pt) (tokens d4) =
                  Some \<lparr>trow_pk = pt, trow_app = app tk, trow_account_id = pa,
                        trow_active = active tk, trow_token = tok_token tk,
                        trow_token_secret = token_secret tk,
                        trow_expires_at = expires_at tk\<rparr>)"
    by (rule save_new [OF acc nex usr nc pa_def tnc', of req])
  have s': "s' = self'"
    and d': "d' = (if con then d4 else es req (u\<lparr>user_pk := Some pu\<rparr>) (email_addresses self) d4)"
    using assms run_t run_f by (cases con; simp)+
  show ?thesis
    using c paq unfolding s' [symmetric]
    by (intro that [OF acc nex usr d']) assumption+
qed

text \<open>
  A new account under a pair that is not stored yet, in a database whose tokens all
  belong to stored accounts: \<^verbatim>\<open>save\<close> returns normally.
\<close>

lemma save_returns:
  assumes "account self = Some a" and "acc_pk a = None" and "user self = Some u"
    and "SocialAccount_objects_filter d (provider a) (uid a) = []"
    and "\<forall>r \<in> set (tokens d). \<exists>x \<in> set (accounts d). row_pk x = trow_account_id r"
  shows "fst (save ST es d self req con) = Inr ()"
proof -
  have nex: "\<not> truthy_pk (acc_pk a)" using assms(2) by (simp add: truthy_pk_def)
  have nc: "\<not> account_conflict d a"
    using assms(2,4) by (simp add: account_conflict_unsaved)
  define pa where "pa = fresh_pk (map row_pk (accounts d))"
  have pa: "pa = (case acc_pk a of None \<Rightarrow> fresh_pk (map row_pk (accounts d)) | Some q \<Rightarrow> q)"
    using assms(2) by (simp add: pa_def)
  have tnc: "\<forall>tk. ST \<and> token self = Some tk \<longrightarrow> \<not> token_conflict d pa tk"
    using token_conflict_fresh [OF assms(5)] by (simp add: pa_def)
  obtain pu self' d4 where
      run_t: "\<forall>es. save ST es d self req True = (Inr (), self', d4)"
    and run_f: "\<forall>es. save ST es d self req False =
          (Inr (), self', es req (u\<lparr>user_pk := Some pu\<rparr>) (email_addresses self) d4)"
    and usr': "user self' = Some (u\<lparr>user_pk := Some pu\<rparr>)"
    and acc': "account self' =
        Some (a\<lparr>acc_user := Some (u\<lparr>user_pk := Some pu\<rparr>), acc_user_id := Some pu,
                acc_pk := Some pa\<rparr>)"
    and eas: "email_addresses self' = email_addresses self" and sta: "state self' = state self"
    and pu0: "user_pk u = None \<longrightarrow> pu \<noteq> 0" and puq: "\<forall>q. user_pk u = Some q \<longrightarrow> pu = q"
    and pa0: "acc_pk a = None \<longrightarrow> pa \<noteq> 0"
    and urow: "find (\<lambda>x. urow_pk x = pu) (users d4) = Some \<lparr>urow_pk = pu, urow_username = username u\<rparr>"
    and arow: "find (\<lambda>x. row_pk x = pa) (accounts d4) =
        Some \<lparr>row_pk = pa, row_user_id = pu, row_provider = provider a, row_uid = uid a,
              row_extra_data = extra_data a\<rparr>"
    and em: "emails d4 = emails d"
    and notok: "token self = None \<or> \<not> ST \<longrightarrow> token self' = token self \<and> tokens d4 = tokens d"
    and tok0: "\<forall>tk. ST \<and> token self = Some tk \<longrightarrow>
          (\<exists>pt. token self' =
                  Some (tk\<lparr>tok_account := account self', tok_pk := Some pt\<rparr>)
              \<and> (tok_pk tk = None \<longrightarrow> pt \<noteq> 0)
              \<and> find (\<lambda>x. trow_pk x = pt) (tokens d4) =
                  Some \<lparr>trow_pk = pt, trow_app = app tk, trow_account_id = pa,
                        trow_active = active tk, trow_token = tok_token tk,
                        trow_token_secret = token_secret tk,
                        trow_expires_at = expires_at tk\<rparr>)"
    by (rule save_new [OF assms(1) nex assms(3) nc pa tnc, of req])
  show ?thesis using run_t run_f by (cases con) simp_all
qed

text \<open>
  C5: \<^verbatim>\<open>save\<close> on a session whose account has a true key raises
  \<^verbatim>\<open>AssertionError\<close> and changes nothing; \<^verbatim>\<open>AssertionError\<close> is neither
  \<^verbatim>\<open>PermissionDenied\<close> nor a \<^verbatim>\<open>DoesNotExist\<close>. On a session which has a
  user and whose account has no key, when no stored account has the pair
  \<open>(provider, uid)\<close> of the account and every stored token belongs to a stored account,
  \<^verbatim>\<open>save\<close> returns normally: the user is stored under a key \<open>pu\<close> (its own key
  when it has one), the account is stored under a key \<open>pa\<close> with \<open>pu\<close> as its user,
  the token, when tokens are stored and the session has one, is stored with \<open>pa\<close> as
  its account, and \<^verbatim>\<open>is_existing\<close> is \<open>pa\<close>, which is true. When a stored
  account has the pair already, \<^verbatim>\<open>save\<close> raises \<^verbatim>\<open>IntegrityError\<close> after the
  user has been stored: no account and no token is written and \<^verbatim>\<open>is_existing\<close>
  stays \<^verbatim>\<open>None\<close>.
\<close>

theorem save_commit:
  "(\<forall>a. account self = Some a \<and> truthy_pk (acc_pk a) \<longrightarrow>
        save ST es d self req con = (Inl AssertionError, self, d))
   \<and> AssertionError \<noteq> PermissionDenied
   \<and> (\<forall>m. AssertionError \<noteq> DoesNotExist m)
   \<and> (\<forall>a u. account self = Some a \<and> acc_pk a = None \<and> user self = Some u
          \<and> SocialAccount_objects_filter d (provider a) (uid a) = []
          \<and> (\<forall>r \<in> set (tokens d). \<exists>x \<in> set (accounts d). row_pk x = trow_account_id r) \<longrightarrow>
        (\<exists>pu pa self' d4.
            save ST es d self req con =
              (Inr (), self',
               if con then d4 else es req (u\<lparr>user_pk := Some pu\<rparr>) (email_addresses self) d4)
          \<and> is_existing self' = Inr (Some pa)
          \<and> truthy_pk (Some pa)
          \<and> (\<forall>q. user_pk u = Some q \<longrightarrow> pu = q)
          \<and> user self' = Some (u\<lparr>user_pk := Some pu\<rparr>)
          \<and> account self' =
              Some (a\<lparr>acc_user := Some (u\<lparr>user_pk := Some pu\<rparr>), acc_user_id := Some pu,
                      acc_pk := Some pa\<rparr>)
          \<and> find (\<lambda>x. urow_pk x = pu) (users d4) =
              Some \<lparr>urow_pk = pu, urow_username = username u\<rparr>
          \<and> find (\<lambda>x. row_pk x = pa) (accounts d4) =
              Some \<lparr>row_pk = pa, row_user_id = pu, row_provider = provider a, row_uid = uid a,
                    row_extra_data = extra_data a\<rparr>
          \<and> (token self = None \<or> \<not> ST \<longrightarrow> token self' = token self \<and> tokens d4 = tokens d)
          \<and> (\<forall>tk. ST \<and> token self = Some tk \<longrightarrow>
                (\<exists>pt. token self' =
                        Some (tk\<lparr>tok_account := account self', tok_pk := Some pt\<rparr>)
                    \<and> (tok_pk tk = None \<longrightarrow> pt \<noteq> 0)
                    \<and> find (\<lambda>x. trow_pk x = pt) (tokens d4) =
                        Some \<lparr>trow_pk = pt, trow_app = app tk, trow_account_id = pa,
                              trow_active = active tk, trow_token = tok_token tk,
                              trow_token_secret = token_secret tk,
                              trow_expires_at = expires_at tk\<rparr>))))
   \<and> (\<forall>a u. account self = Some a \<and> acc_pk a = None \<and> user self = Some u
          \<and> SocialAccount_objects_filter d (provider a) (uid a) \<noteq> [] \<longrightarrow>
        (\<exists>pu s'.
            save ST es d self req con =
              (Inl IntegrityError, s', d\<lparr>users := users (snd (User_save d u))\<rparr>)
          \<and> is_existing s' = Inr None
          \<and> find (\<lambda>x. urow_pk x = pu) (users (snd (User_save d u))) =
              Some \<lparr>urow_pk = pu, urow_username = username u\<rparr>))"
proof -
  have p1: "\<forall>a. account self = Some a \<and> truthy_pk (acc_pk a) \<longrightarrow>
        save ST es d self req con = (Inl AssertionError, self, d)"
    by (simp add: save_def is_existing_def)
  have p2: "AssertionError \<noteq> PermissionDenied" by simp
  have p3: "\<forall>m. AssertionError \<noteq> DoesNotExist m" by simp
  have p4: "(\<exists>pu pa self' d4.
            save ST es d self req con =
              (Inr (), self',
               if con then d4 else es req (u\<lparr>user_pk := Some pu\<rparr>) (email_addresses self) d4)
          \<and> is_existing self' = Inr (Some pa)
          \<and> truthy_pk (Some pa)
          \<and> (\<forall>q. user_pk u = Some q \<longrightarrow> pu = q)
          \<and> user self' = Some (u\<lparr>user_pk := Some pu\<rparr>)
          \<and> account self' =
              Some (a\<lparr>acc_user := Some (u\<lparr>user_pk := Some pu\<rparr>), acc_user_id := Some pu,
                      acc_pk := Some pa\<rparr>)
          \<and> find (\<lambda>x. urow_pk x = pu) (users d4) =
              Some \<lparr>urow_pk = pu, urow_username = username u\<rparr>
          \<and> find (\<lambda>x. row_pk x = pa) (accounts d4) =
              Some \<lparr>row_pk = pa, row_user_id = pu, row_provider = provider a, row_uid = uid a,
                    row_extra_data = extra_data a\<rparr>
          \<and> (token self = None \<or> \<not> ST \<longrightarrow> token self' = token self \<and> tokens d4 = tokens d)
          \<and> (\<forall>tk. ST \<and> token self = Some tk \<longrightarrow>
                (\<exists>pt. token self' =
                        Some (tk\<lparr>tok_account := account self', tok_pk := Some pt\<rparr>)
                    \<and> (tok_pk tk = None \<longrightarrow> pt \<noteq> 0)
                    \<and> find (\<lambda>x. trow_pk x = pt) (tokens d4) =
                        Some \<lparr>trow_pk = pt, trow_app = app tk, trow_account_id = pa,
                              trow_active = active tk, trow_token = tok_token tk,
                              trow_token_secret = token_secret tk,
                              trow_expires_at = expires_at tk\<rparr>)))"
    if h: "account self = Some a \<and> acc_pk a = None \<and> user self = Some u
          \<and> SocialAccount_objects_filter d (provider a) (uid a) = []
          \<and> (\<forall>r \<in> set (tokens d). \<exists>x \<in> set (accounts d). row_pk x = trow_account_id r)"
    for a u
  proof -
    from h have h1: "account self = Some a" and h3: "user self = Some u"
      and h4: "acc_pk a = None"
      and h5: "SocialAccount_objects_filter d (provider a) (uid a) = []"
      and h6: "\<forall>r \<in> set (tokens d). \<exists>x \<in> set (accounts d). row_pk x = trow_account_id r"
      by simp_all
    have nex: "\<not> truthy_pk (acc_pk a)" using h4 by (simp add: truthy_pk_def)
    have nc: "\<not> account_conflict d a"
      using h4 h5 by (simp add: account_conflict_unsaved)
    define pa where "pa = fresh_pk (map row_pk (accounts d))"
    have pa: "pa = (case acc_pk a of None \<Rightarrow> fresh_pk (map row_pk (accounts d)) | Some q \<Rightarrow> q)"
      using h4 by (simp add: pa_def)
    have tnc: "\<forall>tk. ST \<and> token self = Some tk \<longrightarrow> \<not> token_conflict d pa tk"
      using token_conflict_fresh [OF h6] by (simp add: pa_def)
    obtain pu self' d4 where
      run_t: "\<forall>es. save ST es d self req True = (Inr (), self', d4)"
    and run_f: "\<forall>es. save ST es d self req False =
          (Inr (), self', es req (u\<lparr>user_pk := Some pu\<rparr>) (email_addresses self) d4)"
    and usr': "user self' = Some (u\<lparr>user_pk := Some pu\<rparr>)"
    and acc': "account self' =
        Some (a\<lparr>acc_user := Some (u\<lparr>user_pk := Some pu\<rparr>), acc_user_id := Some pu,
                acc_pk := Some pa\<rparr>)"
    and eas: "email_addresses self' = email_addresses self" and sta: "state self' = state self"
    and pu0: "user_pk u = None \<longrightarrow> pu \<noteq> 0" and puq: "\<forall>q. user_pk u = Some q \<longrightarrow> pu = q"
    and pa0: "acc_pk a = None \<longrightarrow> pa \<noteq> 0"
    and urow: "find (\<lambda>x. urow_pk x = pu) (users d4) = Some \<lparr>urow_pk = pu, urow_username = username u\<rparr>"
    and arow: "find (\<lambda>x. row_pk x = pa) (accounts d4) =
        Some \<lparr>row_pk = pa, row_user_id = pu, row_provider = provider a, row_uid = uid a,
              row_extra_data = extra_data a\<rparr>"
    and em: "emails d4 = emails d"
    and notok: "token self = None \<or> \<not> ST \<longrightarrow> token self' = token self \<and> tokens d4 = tokens d"
    and tok0: "\<forall>tk. ST \<and> token self = Some tk \<longrightarrow>
          (\<exists>pt. token self' =
                  Some (tk\<lparr>tok_account := account self', tok_pk := Some pt\<rparr>)
              \<and> (tok_pk tk = None \<longrightarrow> pt \<noteq> 0)
              \<and> find (\<lambda>x. trow_pk x = pt) (tokens d4) =
                  Some \<lparr>trow_pk = pt, trow_app = app tk, trow_account_id = pa,
                        trow_active = active tk, trow_token = tok_token tk,
                        trow_token_secret = token_secret tk,
                        trow_expires_at = expires_at tk\<rparr>)"
      by (rule save_new [OF h1 nex h3 nc pa tnc, of req])
    have pan: "pa \<noteq> 0" using pa0 h4 by simp
    have run: "save ST es d self req con =
              (Inr (), self',
               if con then d4 else es req (u\<lparr>user_pk := Some pu\<rparr>) (email_addresses self) d4)"
      using run_t run_f by (cases con) simp_all
    have ex: "is_existing self' = Inr (Some pa)" "truthy_pk (Some pa)"
      using acc' pan by (simp_all add: is_existing_def truthy_pk_def)
    show ?thesis
      apply (rule exI [of _ pu], rule exI [of _ pa], rule exI [of _ self'], rule exI [of _ d4])
      using run ex puq usr' acc' urow arow notok tok0
      apply (intro conjI)
               apply assumption+
      done
  qed
  have p5: "(\<exists>pu s'.
            save ST es d self req con =
              (Inl IntegrityError, s', d\<lparr>users := users (snd (User_save d u))\<rparr>)
          \<and> is_existing s' = Inr None
          \<and> find (\<lambda>x. urow_pk x = pu) (users (snd (User_save d u))) =
              Some \<lparr>urow_pk = pu, urow_username = username u\<rparr>)"
    if h: "account self = Some a \<and> acc_pk a = None \<and> user self = Some u
          \<and> SocialAccount_objects_filter d (provider a) (uid a) \<noteq> []"
    for a u
  proof -
    from h have h1: "account self = Some a" and h3: "user self = Some u"
      and h4: "acc_pk a = None"
      and h5: "SocialAccount_objects_filter d (provider a) (uid a) \<noteq> []"
      by simp_all
    have nex: "\<not> truthy_pk (acc_pk a)" using h4 by (simp add: truthy_pk_def)
    obtain u' d1 where us: "User_save d u = (u', d1)"
      by (cases "User_save d u") auto
    from User_save_result [OF us] obtain pu where
      urow: "find (\<lambda>x. urow_pk x = pu) (users d1) = Some \<lparr>urow_pk = pu, urow_username = username u\<rparr>"
      and d1: "accounts d1 = accounts d" "tokens d1 = tokens d" "emails d1 = emails d"
        "next_addr d1 = next_addr d"
      by auto
    have d1': "d1 = d\<lparr>users := users d1\<rparr>" using d1 by simp
    have "account_conflict d a" using h4 h5 by (simp add: account_conflict_unsaved)
    then have "account_conflict d1 (set_account_user a u')"
      using account_conflict_cong [of d1 d "set_account_user a u'" a] d1(1)
      by (simp add: set_account_user_def)
    then have "SocialAccount_save d1 (set_account_user a u') = Inl IntegrityError"
      by (rule SocialAccount_save_conflict)
    from save_account_error [OF h1 nex h3 us this, of ST es req con]
    have run: "save ST es d self req con =
           (Inl IntegrityError, self\<lparr>user := Some u', account := Some (set_account_user a u')\<rparr>,
            d\<lparr>users := users (snd (User_save d u))\<rparr>)"
      using d1' us by simp
    have ex: "is_existing (self\<lparr>user := Some u', account := Some (set_account_user a u')\<rparr>)
                = Inr None"
      using h4 by (simp add: is_existing_def set_account_user_def)
    have urow': "find (\<lambda>x. urow_pk x = pu) (users (snd (User_save d u))) =
              Some \<lparr>urow_pk = pu, urow_username = username u\<rparr>"
      using urow us by simp
    show ?thesis
      apply (rule exI [of _ pu])
      apply (rule exI [of _ "self\<lparr>user := Some u', account := Some (set_account_user a u')\<rparr>"])
      using run ex urow'
      apply (intro conjI)
        apply assumption+
      done
  qed
  show ?thesis
    apply (rule conjI [OF p1 conjI [OF p2 conjI [OF p3 conjI]]])
    using p4 apply blast
    using p5 apply blast
    done
qed

text \<open>
  The session of the examples, whose pair \<open>(github, 42)\<close> is stored already, is not
  existing, and \<^verbatim>\<open>save\<close> raises \<^verbatim>\<open>IntegrityError\<close> on it without writing an
  account. On the session whose account carries the key \<open>0\<close>, not existing either,
  \<^verbatim>\<open>save\<close> returns normally and \<^verbatim>\<open>is_existing\<close> is still \<open>0\<close>, which is
  false.
\<close>

theorem save_commit_counterexample:
  "is_existing returning_login = Inr None
   \<and> truthy_pk None = False
   \<and> fst (save True record_verified_emails example_db returning_login fresh_request False)
        = Inl IntegrityError
   \<and> accounts (snd (snd (save True record_verified_emails example_db returning_login
                            fresh_request False)))
        = [github_row]
   \<and> is_existing
        (fst (snd (save True record_verified_emails example_db returning_login fresh_request False)))
        = Inr None
   \<and> is_existing zero_login = Inr (Some 0)
   \<and> truthy_pk (Some 0) = False
   \<and> fst (save True record_verified_emails example_db zero_login fresh_request False) = Inr ()
   \<and> is_existing
        (fst (snd (save True record_verified_emails example_db zero_login fresh_request False)))
        = Inr (Some 0)"
  by (simp add: save_def is_existing_def User_save_def SocialAccount_save_def
        SocialToken_save_def set_account_user_def account_row_of_def token_row_of_def
        account_conflict_def token_conflict_def upsert_def
        fresh_pk_def truthy_pk_def record_verified_emails_def zero_login_def
        example_defs Let_def)

theorem save_commit_witness:
  "account first_login = Some (candidate_account\<lparr>uid := ''43''\<rparr>)
   \<and> acc_pk (candidate_account\<lparr>uid := ''43''\<rparr>) = None
   \<and> user first_login = Some bob
   \<and> SocialAccount_objects_filter example_db ''github'' ''43'' = []
   \<and> fst (save True record_verified_emails example_db first_login fresh_request False) = Inr ()
   \<and> is_existing
        (fst (snd (save True record_verified_emails example_db first_login fresh_request False)))
        = Inr (Some 2)
   \<and> truthy_pk (Some 2)
   \<and> users (snd (snd (save True record_verified_emails example_db first_login fresh_request False)))
        = [alice_row, \<lparr>urow_pk = 2, urow_username = ''bob''\<rparr>]
   \<and> accounts (snd (snd (save True record_verified_emails example_db first_login fresh_request False)))
        = [github_row,
           \<lparr>row_pk = 2, row_user_id = 2, row_provider = ''github'', row_uid = ''43'',
            row_extra_data = [(''name'', ''new'')]\<rparr>]
   \<and> tokens (snd (snd (save True record_verified_emails example_db first_login fresh_request False)))
        = [stored_token_row,
           \<lparr>trow_pk = 2, trow_app = 1, trow_account_id = 2, trow_active = True,
            trow_token = ''a2'', trow_token_secret = [], trow_expires_at = Some 3600\<rparr>]
   \<and> account existing_login = Some stored_account
   \<and> truthy_pk (acc_pk stored_account)
   \<and> save True record_verified_emails example_db existing_login fresh_request False
        = (Inl AssertionError, existing_login, example_db)
   \<and> account returning_login = Some candidate_account
   \<and> SocialAccount_objects_filter example_db ''github'' ''42'' = [github_row]
   \<and> fst (save True record_verified_emails example_db returning_login fresh_request False)
        = Inl IntegrityError"
  using save_commit [of first_login True record_verified_emails example_db fresh_request False]
    save_commit [of existing_login True record_verified_emails example_db fresh_request False]
    save_commit [of returning_login True record_verified_emails example_db fresh_request False]
  by (simp add: save_def is_existing_def User_save_def SocialAccount_save_def
        SocialToken_save_def set_account_user_def account_row_of_def token_row_of_def
        account_conflict_def token_conflict_def SocialAccount_objects_filter_def
        fresh_pk_def truthy_pk_def record_verified_emails_def existing_login_def
        example_defs Let_def)

text \<open>
  C8: for every session, \<^verbatim>\<open>save\<close> with \<^verbatim>\<open>connect=True\<close> does not call
  \<^verbatim>\<open>setup_user_email\<close> (its result is the same for every such function) and
  leaves the email records as they were. When it raises, \<^verbatim>\<open>save\<close> with
  \<^verbatim>\<open>connect=False\<close> raises the same way from the same state. When it returns
  normally, the user is stored under a key \<open>pu\<close> (its own key when it has one), the
  account is stored under a key \<open>pa\<close> with \<open>pu\<close> as its user, the token, when
  tokens are stored and the session has one, is stored with \<open>pa\<close> as its account, and
  \<^verbatim>\<open>save\<close> with \<^verbatim>\<open>connect=False\<close> returns the same session with the database
  that \<^verbatim>\<open>setup_user_email\<close> makes of that database when called with the
  request, the saved user and the session's email addresses. It does return normally on
  a session which has a user and an account without a key, when no stored account has
  the pair of the account and every stored token belongs to a stored account.
  \<^verbatim>\<open>connect\<close> is \<^verbatim>\<open>save\<close> with \<^verbatim>\<open>connect=True\<close> on the session with the
  user given: when that user has the key \<open>q\<close> and \<^verbatim>\<open>connect\<close> returns normally,
  the session's user is that user, the account is stored with \<open>q\<close> as its user, the
  user row of \<open>q\<close> is that user's, and the email records are as they were.
\<close>

theorem save_connect_skips_email:
  "(\<forall>es'. save ST es' d self req True = save ST es d self req True)
   \<and> emails (snd (snd (save ST es d self req True))) = emails d
   \<and> (\<forall>e s' d'. save ST es d self req True = (Inl e, s', d') \<longrightarrow>
        save ST es d self req False = (Inl e, s', d'))
   \<and> (\<forall>s' d'. save ST es d self req True = (Inr (), s', d') \<longrightarrow>
        (\<exists>a u pu pa.
            account self = Some a \<and> user self = Some u
          \<and> (\<forall>q. user_pk u = Some q \<longrightarrow> pu = q)
          \<and> user s' = Some (u\<lparr>user_pk := Some pu\<rparr>)
          \<and> account s' =
              Some (a\<lparr>acc_user := Some (u\<lparr>user_pk := Some pu\<rparr>), acc_user_id := Some pu,
                      acc_pk := Some pa\<rparr>)
          \<and> find (\<lambda>x. urow_pk x = pu) (users d') =
              Some \<lparr>urow_pk = pu, urow_username = username u\<rparr>
          \<and> find (\<lambda>x. row_pk x = pa) (accounts d') =
              Some \<lparr>row_pk = pa, row_user_id = pu, row_provider = provider a, row_uid = uid a,
                    row_extra_data = extra_data a\<rparr>
          \<and> (\<forall>tk. ST \<and> token self = Some tk \<longrightarrow>
                (\<exists>pt. token s' =
                        Some (tk\<lparr>tok_account := account s', tok_pk := Some pt\<rparr>)
                    \<and> find (\<lambda>x. trow_pk x = pt) (tokens d') =
                        Some \<lparr>trow_pk = pt, trow_app = app tk, trow_account_id = pa,
                              trow_active = active tk, trow_token = tok_token tk,
                              trow_token_secret = token_secret tk,
                              trow_expires_at = expires_at tk\<rparr>))
          \<and> save ST es d self req False =
              (Inr (), s', es req (u\<lparr>user_pk := Some pu\<rparr>) (email_addresses self) d')))
   \<and> (\<forall>a u. account self = Some a \<and> acc_pk a = None \<and> user self = Some u
          \<and> SocialAccount_objects_filter d (provider a) (uid a) = []
          \<and> (\<forall>r \<in> set (tokens d). \<exists>x \<in> set (accounts d). row_pk x = trow_account_id r) \<longrightarrow>
        fst (save ST es d self req True) = Inr ())
   \<and> (\<forall>u0. connect ST es d self req u0 = save ST es d (self\<lparr>user := Some u0\<rparr>) req True)
   \<and> (\<forall>u0 q s' d'. user_pk u0 = Some q \<and> connect ST es d self req u0 = (Inr (), s', d') \<longrightarrow>
        user s' = Some u0
          \<and> emails d' = emails d
          \<and> find (\<lambda>x. urow_pk x = q) (users d') = Some \<lparr>urow_pk = q, urow_username = username u0\<rparr>
          \<and> (\<exists>a pa. account self = Some a
               \<and> account s' =
                   Some (a\<lparr>acc_user := Some u0, acc_user_id := Some q, acc_pk := Some pa\<rparr>)
               \<and> find (\<lambda>x. row_pk x = pa) (accounts d') =
                   Some \<lparr>row_pk = pa, row_user_id = q, row_provider = provider a,
                         row_uid = uid a, row_extra_data = extra_data a\<rparr>))
   \<and> (\<forall>a u0. account self = Some a \<and> acc_pk a = None
          \<and> SocialAccount_objects_filter d (provider a) (uid a) = []
          \<and> (\<forall>r \<in> set (tokens d). \<exists>x \<in> set (accounts d). row_pk x = trow_account_id r) \<longrightarrow>
        fst (connect ST es d self req u0) = Inr ())"
proof -
  obtain r s4 dw u' where
      run: "\<forall>es con. save ST es d self req con =
        (r, s4, if r = Inr () \<and> \<not> con then es req u' (email_addresses self) dw else dw)"
    and emw: "emails dw = emails d" and us4: "r = Inr () \<longrightarrow> user s4 = Some u'"
    by (rule save_shape [of ST d self req])
  have p1: "\<forall>es'. save ST es' d self req True = save ST es d self req True"
    using run by simp
  have p2: "emails (snd (snd (save ST es d self req True))) = emails d"
    using run emw by simp
  have p3: "\<forall>e s' d'. save ST es d self req True = (Inl e, s', d') \<longrightarrow>
        save ST es d self req False = (Inl e, s', d')"
    using run by auto
  have p4: "(\<exists>a u pu pa.
            account self = Some a \<and> user self = Some u
          \<and> (\<forall>q. user_pk u = Some q \<longrightarrow> pu = q)
          \<and> user s' = Some (u\<lparr>user_pk := Some pu\<rparr>)
          \<and> account s' =
              Some (a\<lparr>acc_user := Some (u\<lparr>user_pk := Some pu\<rparr>), acc_user_id := Some pu,
                      acc_pk := Some pa\<rparr>)
          \<and> find (\<lambda>x. urow_pk x = pu) (users d') =
              Some \<lparr>urow_pk = pu, urow_username = username u\<rparr>
          \<and> find (\<lambda>x. row_pk x = pa) (accounts d') =
              Some \<lparr>row_pk = pa, row_user_id = pu, row_provider = provider a, row_uid = uid a,
                    row_extra_data = extra_data a\<rparr>
          \<and> (\<forall>tk. ST \<and> token self = Some tk \<longrightarrow>
                (\<exists>pt. token s' =
                        Some (tk\<lparr>tok_account := account s', tok_pk := Some pt\<rparr>)
                    \<and> find (\<lambda>x. trow_pk x = pt) (tokens d') =
                        Some \<lparr>trow_pk = pt, trow_app = app tk, trow_account_id = pa,
                              trow_active = active tk, trow_token = tok_token tk,
                              trow_token_secret = token_secret tk,
                              trow_expires_at = expires_at tk\<rparr>))
          \<and> save ST es d self req False =
              (Inr (), s', es req (u\<lparr>user_pk := Some pu\<rparr>) (email_addresses self) d'))"
    if h: "save ST es d self req True = (Inr (), s', d')" for s' d'
  proof -
    obtain a u pu pa d4 where
        acc: "account self = Some a" and nex: "\<not> truthy_pk (acc_pk a)" and usr: "user self = Some u"
      and dd: "d' = (if True then d4 else es req (u\<lparr>user_pk := Some pu\<rparr>) (email_addresses self) d4)"
      and usr': "user s' = Some (u\<lparr>user_pk := Some pu\<rparr>)"
      and acc': "account s' =
          Some (a\<lparr>acc_user := Some (u\<lparr>user_pk := Some pu\<rparr>), acc_user_id := Some pu,
                  acc_pk := Some pa\<rparr>)"
      and eas: "email_addresses s' = email_addresses self" and sta: "state s' = state self"
      and pu0: "user_pk u = None \<longrightarrow> pu \<noteq> 0" and puq: "\<forall>q. user_pk u = Some q \<longrightarrow> pu = q"
      and pa0: "acc_pk a = None \<longrightarrow> pa \<noteq> 0" and paq: "\<forall>q. acc_pk a = Some q \<longrightarrow> pa = q"
      and urow: "find (\<lambda>x. urow_pk x = pu) (users d4) = Some \<lparr>urow_pk = pu, urow_username = username u\<rparr>"
      and arow: "find (\<lambda>x. row_pk x = pa) (accounts d4) =
          Some \<lparr>row_pk = pa, row_user_id = pu, row_provider = provider a, row_uid = uid a,
                row_extra_data = extra_data a\<rparr>"
      and em: "emails d4 = emails d"
      and notok: "token self = None \<or> \<not> ST \<longrightarrow> token s' = token self \<and> tokens d4 = tokens d"
      and tok0: "\<forall>tk. ST \<and> token self = Some tk \<longrightarrow>
            (\<exists>pt. token s' =
                    Some (tk\<lparr>tok_account := account s', tok_pk := Some pt\<rparr>)
                \<and> (tok_pk tk = None \<longrightarrow> pt \<noteq> 0)
                \<and> find (\<lambda>x. trow_pk x = pt) (tokens d4) =
                    Some \<lparr>trow_pk = pt, trow_app = app tk, trow_account_id = pa,
                          trow_active = active tk, trow_token = tok_token tk,
                          trow_token_secret = token_secret tk,
                          trow_expires_at = expires_at tk\<rparr>)"
      by (rule save_persists [OF h])
    have d': "d' = d4" using dd by simp
    have rf: "save ST es d self req False =
              (Inr (), s', es req (u\<lparr>user_pk := Some pu\<rparr>) (email_addresses self) d')"
      using run h usr' us4 by auto
    have tok1: "\<forall>tk. ST \<and> token self = Some tk \<longrightarrow>
                (\<exists>pt. token s' =
                        Some (tk\<lparr>tok_account := account s', tok_pk := Some pt\<rparr>)
                    \<and> find (\<lambda>x. trow_pk x = pt) (tokens d') =
                        Some \<lparr>trow_pk = pt, trow_app = app tk, trow_account_id = pa,
                              trow_active = active tk, trow_token = tok_token tk,
                              trow_token_secret = token_secret tk,
                              trow_expires_at = expires_at tk\<rparr>)"
      using tok0 unfolding d' by auto
    show ?thesis
      apply (rule exI [of _ a], rule exI [of _ u], rule exI [of _ pu], rule exI [of _ pa])
      using acc usr puq usr' acc' urow arow tok1 rf unfolding d'
      apply (intro conjI)
              apply assumption+
      done
  qed
  have p5: "fst (save ST es d self req True) = Inr ()"
    if h: "account self = Some a \<and> acc_pk a = None \<and> user self = Some u
          \<and> SocialAccount_objects_filter d (provider a) (uid a) = []
          \<and> (\<forall>r \<in> set (tokens d). \<exists>x \<in> set (accounts d). row_pk x = trow_account_id r)"
    for a u
  proof -
    from h have h1: "account self = Some a" and h3: "user self = Some u"
      and h4: "acc_pk a = None"
      and h5: "SocialAccount_objects_filter d (provider a) (uid a) = []"
      and h6: "\<forall>r \<in> set (tokens d). \<exists>x \<in> set (accounts d). row_pk x = trow_account_id r"
      by simp_all
    show ?thesis by (rule save_returns [OF h1 h4 h3 h5 h6])
  qed
  have p6: "\<forall>u0. connect ST es d self req u0 = save ST es d (self\<lparr>user := Some u0\<rparr>) req True"
    by (simp add: connect_def)
  have p7: "user s' = Some u0
          \<and> emails d' = emails d
          \<and> find (\<lambda>x. urow_pk x = q) (users d') = Some \<lparr>urow_pk = q, urow_username = username u0\<rparr>
          \<and> (\<exists>a pa. account self = Some a
               \<and> account s' =
                   Some (a\<lparr>acc_user := Some u0, acc_user_id := Some q, acc_pk := Some pa\<rparr>)
               \<and> find (\<lambda>x. row_pk x = pa) (accounts d') =
                   Some \<lparr>row_pk = pa, row_user_id = q, row_provider = provider a,
                         row_uid = uid a, row_extra_data = extra_data a\<rparr>)"
    if h: "user_pk u0 = Some q \<and> connect ST es d self req u0 = (Inr (), s', d')"
    for u0 q s' d'
  proof -
    define s0 where "s0 = self\<lparr>user := Some u0\<rparr>"
    have h1: "user_pk u0 = Some q" and h2: "save ST es d s0 req True = (Inr (), s', d')"
      using h by (simp_all add: connect_def s0_def)
    obtain a u pu pa d4 where
        acc: "account s0 = Some a" and nex: "\<not> truthy_pk (acc_pk a)" and usr: "user s0 = Some u"
      and dd: "d' = (if True then d4 else es req (u\<lparr>user_pk := Some pu\<rparr>) (email_addresses s0) d4)"
      and usr': "user s' = Some (u\<lparr>user_pk := Some pu\<rparr>)"
      and acc': "account s' =
          Some (a\<lparr>acc_user := Some (u\<lparr>user_pk := Some pu\<rparr>), acc_user_id := Some pu,
                  acc_pk := Some pa\<rparr>)"
      and eas: "email_addresses s' = email_addresses s0" and sta: "state s' = state s0"
      and pu0: "user_pk u = None \<longrightarrow> pu \<noteq> 0" and puq: "\<forall>q. user_pk u = Some q \<longrightarrow> pu = q"
      and pa0: "acc_pk a = None \<longrightarrow> pa \<noteq> 0" and paq: "\<forall>q. acc_pk a = Some q \<longrightarrow> pa = q"
      and urow: "find (\<lambda>x. urow_pk x = pu) (users d4) = Some \<lparr>urow_pk = pu, urow_username = username u\<rparr>"
      and arow: "find (\<lambda>x. row_pk x = pa) (accounts d4) =
          Some \<lparr>row_pk = pa, row_user_id = pu, row_provider = provider a, row_uid = uid a,
                row_extra_data = extra_data a\<rparr>"
      and em: "emails d4 = emails d"
      and notok: "token s0 = None \<or> \<not> ST \<longrightarrow> token s' = token s0 \<and> tokens d4 = tokens d"
      and tok0: "\<forall>tk. ST \<and> token s0 = Some tk \<longrightarrow>
            (\<exists>pt. token s' =
                    Some (tk\<lparr>tok_account := account s', tok_pk := Some pt\<rparr>)
                \<and> (tok_pk tk = None \<longrightarrow> pt \<noteq> 0)
                \<and> find (\<lambda>x. trow_pk x = pt) (tokens d4) =
                    Some \<lparr>trow_pk = pt, trow_app = app tk, trow_account_id = pa,
                          trow_active = active tk, trow_token = tok_token tk,
                          trow_token_secret = token_secret tk,
                          trow_expires_at = expires_at tk\<rparr>)"
      by (rule save_persists [OF h2])
    have d': "d' = d4" using dd by simp
    have u: "u = u0" using usr by (simp add: s0_def)
    have pu: "pu = q" using puq h1 u by simp
    have u0: "u0\<lparr>user_pk := Some q\<rparr> = u0" using h1 by simp
    have c1: "user s' = Some u0" using usr' u pu u0 by simp
    have c2: "emails d' = emails d" using em d' by simp
    have c3: "find (\<lambda>x. urow_pk x = q) (users d') = Some \<lparr>urow_pk = q, urow_username = username u0\<rparr>"
      using urow u pu d' by simp
    have c4: "account self = Some a" using acc by (simp add: s0_def)
    have c5: "account s' =
                   Some (a\<lparr>acc_user := Some u0, acc_user_id := Some q, acc_pk := Some pa\<rparr>)"
      using acc' u pu u0 by simp
    have c6: "find (\<lambda>x. row_pk x = pa) (accounts d') =
                   Some \<lparr>row_pk = pa, row_user_id = q, row_provider = provider a,
                         row_uid = uid a, row_extra_data = extra_data a\<rparr>"
      using arow pu d' by simp
    have c7: "\<exists>a pa. account self = Some a
               \<and> account s' =
                   Some (a\<lparr>acc_user := Some u0, acc_user_id := Some q, acc_pk := Some pa\<rparr>)
               \<and> find (\<lambda>x. row_pk x = pa) (accounts d') =
                   Some \<lparr>row_pk = pa, row_user_id = q, row_provider = provider a,
                         row_uid = uid a, row_extra_data = extra_data a\<rparr>"
      apply (rule exI [of _ a], rule exI [of _ pa])
      using c4 c5 c6
      apply (intro conjI)
        apply assumption+
      done
    show ?thesis by (rule conjI [OF c1 conjI [OF c2 conjI [OF c3 c7]]])
  qed
  have p8: "fst (connect ST es d self req u0) = Inr ()"
    if h: "account self = Some a \<and> acc_pk a = None
          \<and> SocialAccount_objects_filter d (provider a) (uid a) = []
          \<and> (\<forall>r \<in> set (tokens d). \<exists>x \<in> set (accounts d). row_pk x = trow_account_id r)"
    for a u0
  proof -
    from h have h1: "account (self\<lparr>user := Some u0\<rparr>) = Some a"
      and h3: "user (self\<lparr>user := Some u0\<rparr>) = Some u0"
      and h4: "acc_pk a = None"
      and h5: "SocialAccount_objects_filter d (provider a) (uid a) = []"
      and h6: "\<forall>r \<in> set (tokens d). \<exists>x \<in> set (accounts d). row_pk x = trow_account_id r"
      by simp_all
    show ?thesis
      unfolding connect_def by (rule save_returns [OF h1 h4 h3 h5 h6])
  qed
  have q4: "\<forall>s' d'. save ST es d self req True = (Inr (), s', d') \<longrightarrow>
        (\<exists>a u pu pa.
            account self = Some a \<and> user self = Some u
          \<and> (\<forall>q. user_pk u = Some q \<longrightarrow> pu = q)
          \<and> user s' = Some (u\<lparr>user_pk := Some pu\<rparr>)
          \<and> account s' =
              Some (a\<lparr>acc_user := Some (u\<lparr>user_pk := Some pu\<rparr>), acc_user_id := Some pu,
                      acc_pk := Some pa\<rparr>)
          \<and> find (\<lambda>x. urow_pk x = pu) (users d') =
              Some \<lparr>urow_pk = pu, urow_username = username u\<rparr>
          \<and> find (\<lambda>x. row_pk x = pa) (accounts d') =
              Some \<lparr>row_pk = pa, row_user_id = pu, row_provider = provider a, row_uid = uid a,
                    row_extra_data = extra_data a\<rparr>
          \<and> (\<forall>tk. ST \<and> token self = Some tk \<longrightarrow>
                (\<exists>pt. token s' =
                        Some (tk\<lparr>tok_account := account s', tok_pk := Some pt\<rparr>)
                    \<and> find (\<lambda>x. trow_pk x = pt) (tokens d') =
                        Some \<lparr>trow_pk = pt, trow_app = app tk, trow_account_id = pa,
                              trow_active = active tk, trow_token = tok_token tk,
                              trow_token_secret = token_secret tk,
                              trow_expires_at = expires_at tk\<rparr>))
          \<and> save ST es d self req False =
              (Inr (), s', es req (u\<lparr>user_pk := Some pu\<rparr>) (email_addresses self) d'))"
    using p4 by (intro allI impI)
  have q5: "\<forall>a u. account self = Some a \<and> acc_pk a = None \<and> user self = Some u
          \<and> SocialAccount_objects_filter d (provider a) (uid a) = []
          \<and> (\<forall>r \<in> set (tokens d). \<exists>x \<in> set (accounts d). row_pk x = trow_account_id r) \<longrightarrow>
        fst (save ST es d self req True) = Inr ()"
    using p5 by (intro allI impI)
  have q7: "\<forall>u0 q s' d'. user_pk u0 = Some q \<and> connect ST es d self req u0 = (Inr (), s', d') \<longrightarrow>
        user s' = Some u0
          \<and> emails d' = emails d
          \<and> find (\<lambda>x. urow_pk x = q) (users d') = Some \<lparr>urow_pk = q, urow_username = username u0\<rparr>
          \<and> (\<exists>a pa. account self = Some a
               \<and> account s' =
                   Some (a\<lparr>acc_user := Some u0, acc_user_id := Some q, acc_pk := Some pa\<rparr>)
               \<and> find (\<lambda>x. row_pk x = pa) (accounts d') =
                   Some \<lparr>row_pk = pa, row_user_id = q, row_provider = provider a,
                         row_uid = uid a, row_extra_data = extra_data a\<rparr>)"
    using p7 by (intro allI impI)
  have q8: "\<forall>a u0. account self = Some a \<and> acc_pk a = None
          \<and> SocialAccount_objects_filter d (provider a) (uid a) = []
          \<and> (\<forall>r \<in> set (tokens d). \<exists>x \<in> set (accounts d). row_pk x = trow_account_id r) \<longrightarrow>
        fst (connect ST es d self req u0) = Inr ()"
    using p8 by (intro allI impI)
  show ?thesis
    by (rule conjI [OF p1 conjI [OF p2 conjI [OF p3 conjI [OF q4 conjI [OF q5
          conjI [OF p6 conjI [OF q7 q8]]]]]]])
qed

theorem save_connect_skips_email_witness:
  "fst (save True record_verified_emails example_db first_login fresh_request True) = Inr ()
   \<and> emails (snd (snd (save True record_verified_emails example_db first_login fresh_request True)))
        = []
   \<and> emails (snd (snd (save True record_verified_emails example_db first_login fresh_request False)))
        = [(2, \<lparr>email = ''bob@example.org'', verified = True\<rparr>)]
   \<and> users (snd (snd (save True record_verified_emails example_db first_login fresh_request True)))
        = [alice_row, \<lparr>urow_pk = 2, urow_username = ''bob''\<rparr>]
   \<and> accounts (snd (snd (save True record_verified_emails example_db first_login fresh_request True)))
        = [github_row,
           \<lparr>row_pk = 2, row_user_id = 2, row_provider = ''github'', row_uid = ''43'',
            row_extra_data = [(''name'', ''new'')]\<rparr>]
   \<and> tokens (snd (snd (save True record_verified_emails example_db first_login fresh_request True)))
        = [stored_token_row,
           \<lparr>trow_pk = 2, trow_app = 1, trow_account_id = 2, trow_active = True,
            trow_token = ''a2'', trow_token_secret = [], trow_expires_at = Some 3600\<rparr>]
   \<and> save True record_verified_emails example_db existing_login fresh_request True
        = (Inl AssertionError, existing_login, example_db)
   \<and> save True record_verified_emails example_db existing_login fresh_request False
        = (Inl AssertionError, existing_login, example_db)
   \<and> user_pk \<lparr>user_pk = Some 1, username = ''alice''\<rparr> = Some 1
   \<and> fst (connect True record_verified_emails example_db first_login fresh_request
            \<lparr>user_pk = Some 1, username = ''alice''\<rparr>) = Inr ()
   \<and> accounts (snd (snd (connect True record_verified_emails example_db first_login fresh_request
                            \<lparr>user_pk = Some 1, username = ''alice''\<rparr>)))
        = [github_row,
           \<lparr>row_pk = 2, row_user_id = 1, row_provider = ''github'', row_uid = ''43'',
            row_extra_data = [(''name'', ''new'')]\<rparr>]
   \<and> users (snd (snd (connect True record_verified_emails example_db first_login fresh_request
                         \<lparr>user_pk = Some 1, username = ''alice''\<rparr>)))
        = [alice_row]
   \<and> emails (snd (snd (connect True record_verified_emails example_db first_login fresh_request
                          \<lparr>user_pk = Some 1, username = ''alice''\<rparr>)))
        = []"
  using save_connect_skips_email
          [where ST = True and es = record_verified_emails and d = example_db
             and self = first_login and req = fresh_request]
    save_connect_skips_email
          [where ST = True and es = record_verified_emails and d = example_db
             and self = existing_login and req = fresh_request]
  by (simp add: save_def is_existing_def User_save_def SocialAccount_save_def
        SocialToken_save_def set_account_user_def account_row_of_def token_row_of_def
        account_conflict_def token_conflict_def SocialAccount_objects_filter_def
        fresh_pk_def truthy_pk_def record_verified_emails_def upsert_def connect_def
        existing_login_def example_defs Let_def)

section \<open>Serialization\<close>

lemma serialize_keys:
  "serialize ad x ''account'' = Some (Instance (serialize_account ad (account x)))"
  "serialize ad x ''user'' = Some (Instance (serialize_user ad (user x)))"
  "serialize ad x ''state'' = Some (State (state x))"
  "serialize ad x ''email_addresses'' =
     Some (Instances (map (serialize_email ad) (email_addresses x)))"
  "serialize ad x ''token'' = map_option (\<lambda>t. Instance (serialize_token ad t)) (token x)"
  by (cases "token x"; simp add: serialize_def)+

lemma deserialize_serialize:
  "deserialize ad (serialize ad x) =
     Inr \<lparr>token = map_option (\<lambda>t. deserialize_token ad (serialize_token ad t)) (token x),
          user = Some (deserialize_user ad (serialize_user ad (user x))),
          account = Some (deserialize_account ad (serialize_account ad (account x))),
          email_addresses =
            map (\<lambda>e. deserialize_email ad (serialize_email ad e)) (email_addresses x),
          state = state x\<rparr>"
  by (cases "token x")
     (simp_all add: deserialize_def get_instance_def get_instances_def get_state_def
        serialize_keys init_def comp_def)

text \<open>
  C3: for a session \<open>x\<close> with an account and a user, and an instance serializer that
  gives back every instance it serialized up to the relations \<open>Ra\<close>, \<open>Ru\<close>, \<open>Rt\<close>
  and \<open>Re\<close> (equality or any coarser equivalence), \<^verbatim>\<open>deserialize(serialize(x))\<close>
  returns a session whose account, user, token and email addresses are related to those
  of \<open>x\<close>, whose state is the state of \<open>x\<close>, and which has a token exactly when \<open>x\<close>
  has one. The serialized dictionary has the key \<^verbatim>\<open>token\<close> exactly when \<open>x\<close> has
  a token, and always has the other four keys.
\<close>

theorem serialize_deserialize_roundtrip:
  assumes "account x = Some a" and "user x = Some u"
    and "\<And>a'. Ra (deserialize_account ad (serialize_account ad (Some a'))) a'"
    and "\<And>u'. Ru (deserialize_user ad (serialize_user ad (Some u'))) u'"
    and "\<And>t'. Rt (deserialize_token ad (serialize_token ad t')) t'"
    and "\<And>e'. Re (deserialize_email ad (serialize_email ad e')) e'"
  shows "\<exists>y. deserialize ad (serialize ad x) = Inr y
           \<and> rel_option Ra (account y) (account x)
           \<and> rel_option Ru (user y) (user x)
           \<and> list_all2 Re (email_addresses y) (email_addresses x)
           \<and> state y = state x
           \<and> rel_option Rt (token y) (token x)
           \<and> (token y = None \<longleftrightarrow> token x = None)
           \<and> (''token'' \<in> dom (serialize ad x) \<longleftrightarrow> token x \<noteq> None)
           \<and> {''account'', ''user'', ''state'', ''email_addresses''} \<subseteq> dom (serialize ad x)"
proof -
  let ?y = "\<lparr>token = map_option (\<lambda>t. deserialize_token ad (serialize_token ad t)) (token x),
          user = Some (deserialize_user ad (serialize_user ad (user x))),
          account = Some (deserialize_account ad (serialize_account ad (account x))),
          email_addresses =
            map (\<lambda>e. deserialize_email ad (serialize_email ad e)) (email_addresses x),
          state = state x\<rparr>"
  have run: "deserialize ad (serialize ad x) = Inr ?y"
    by (rule deserialize_serialize)
  have acc: "rel_option Ra (account ?y) (account x)"
    using assms(1,3) by simp
  have usr: "rel_option Ru (user ?y) (user x)"
    using assms(2,4) by simp
  have ems: "list_all2 Re (email_addresses ?y) (email_addresses x)"
    using assms(6) by (simp add: list_all2_map1 list.rel_refl)
  have tok: "rel_option Rt (token ?y) (token x)"
    using assms(5) by (cases "token x") simp_all
  have pres: "token ?y = None \<longleftrightarrow> token x = None"
    by simp
  have key: "''token'' \<in> dom (serialize ad x) \<longleftrightarrow> token x \<noteq> None"
    by (simp add: dom_def serialize_keys)
  have keys: "{''account'', ''user'', ''state'', ''email_addresses''} \<subseteq> dom (serialize ad x)"
    by (simp add: dom_def serialize_keys)
  have st: "state ?y = state x" by simp
  show ?thesis
    apply (rule exI [of _ ?y])
    using run acc usr ems st tok pres key keys
    apply (intro conjI)
            apply assumption+
    done
qed

theorem serialize_deserialize_roundtrip_witness:
  "account returning_login = Some candidate_account
   \<and> user returning_login = Some bob
   \<and> deserialize example_adapter (serialize example_adapter returning_login) =
        Inr (returning_login\<lparr>account := Some (candidate_account\<lparr>acc_addr := 1, acc_user := None\<rparr>)\<rparr>)
   \<and> same_account (candidate_account\<lparr>acc_addr := 1, acc_user := None\<rparr>) candidate_account
   \<and> serialize example_adapter returning_login ''token'' =
        Some (Instance (TokenBlob candidate_token))
   \<and> serialize example_adapter (returning_login\<lparr>token := None\<rparr>) ''token'' = None
   \<and> token returning_login \<noteq> None"
proof -
  have h1: "account returning_login = Some candidate_account"
    by (simp add: returning_login_def)
  have h2: "user returning_login = Some bob"
    by (simp add: returning_login_def)
  have h3: "same_account
              (deserialize_account example_adapter (serialize_account example_adapter (Some a'))) a'"
    for a'
    by (simp add: example_adapter_def same_account_def)
  have h4: "deserialize_user example_adapter (serialize_user example_adapter (Some u')) = u'" for u'
    by (simp add: example_adapter_def)
  have h5: "deserialize_token example_adapter (serialize_token example_adapter t') = t'" for t'
    by (simp add: example_adapter_def)
  have h6: "deserialize_email example_adapter (serialize_email example_adapter e') = e'" for e'
    by (simp add: example_adapter_def)
  from serialize_deserialize_roundtrip
         [of returning_login candidate_account bob same_account example_adapter "(=)" "(=)" "(=)",
          OF h1 h2 h3 h4 h5 h6]
       serialize_deserialize_roundtrip
         [of "returning_login\<lparr>token := None\<rparr>" candidate_account bob same_account
             example_adapter "(=)" "(=)" "(=)"]
       h1 h2 h3 h4 h5 h6
  show ?thesis
    by (simp add: deserialize_serialize serialize_keys example_adapter_def same_account_def
          returning_login_def candidate_account_def)
qed

section \<open>The token's account\<close>










end
